theory Spec2Isabelle
  imports Main
begin

section \<open>The Hypernode host agent (minimal version embedded in the install script)\<close>

text \<open>
  The agent is the Python class \<open>HypernodeAgent\<close> that the quick-install script writes to
  \<open>agent.py\<close>: it opens one WebSocket connection, sends a registration request, starts a
  heartbeat task and then handles inbound messages one at a time.

  The embedding follows the Python text function by function. Everything the code takes
  from outside is an explicit argument: the JSON decoder \<open>json.loads\<close>, the outcome of
  \<open>subprocess.run\<close>, the host facts, the outcome of every \<open>ws.send\<close>, the schedule of
  the heartbeat task and the inbound stream. Everything the code does to the outside
  (frames sent, lines printed, sleeps) is appended to a trace.
\<close>

subsection \<open>JSON values and Python dictionaries\<close>

text \<open>
  The values \<open>json.loads\<close> produces and \<open>json.dumps\<close> consumes. \<open>JNull\<close> is Python's
  \<open>None\<close>. An object is a dictionary, kept as an association list in insertion order.
  Numbers are the integers; no function of the agent computes with a number.
\<close>

datatype json =
    JNull
  | JBool bool
  | JNum int
  | JStr string
  | JArr "json list"
  | JObj "(string \<times> json) list"

text \<open>\<open>d.get(k)\<close> and \<open>d.get(k, default)\<close>: a missing key gives \<open>None\<close> or the default.\<close>

definition dict_get_default :: "(string \<times> json) list \<Rightarrow> string \<Rightarrow> json \<Rightarrow> json" where
  "dict_get_default d k dflt = (case map_of d k of None \<Rightarrow> dflt | Some v \<Rightarrow> v)"

definition dict_get :: "(string \<times> json) list \<Rightarrow> string \<Rightarrow> json" where
  "dict_get d k = dict_get_default d k JNull"

text \<open>The keys of a dictionary, and the field of a JSON value that may not be an object.\<close>

definition keys :: "json \<Rightarrow> string list" where
  "keys v = (case v of JObj d \<Rightarrow> map fst d | _ \<Rightarrow> [])"

definition field :: "json \<Rightarrow> string \<Rightarrow> json" where
  "field v k = (case v of JObj d \<Rightarrow> dict_get d k | _ \<Rightarrow> JNull)"

subsection \<open>Exceptions\<close>

text \<open>
  The exceptions the agent can meet. \<open>Interrupt\<close> stands for \<open>KeyboardInterrupt\<close> and the
  task cancellation it causes: the only one here that is a \<open>BaseException\<close> but not an
  \<open>Exception\<close>, so \<open>except Exception\<close> lets it through and a bare \<open>except:\<close> does not.
\<close>

datatype exn =
    FileNotFoundError
  | TimeoutExpired
  | OSError
  | JSONDecodeError
  | AttributeError
  | ConnectionClosed
  | UnicodeEncodeError
  | Interrupt

definition is_Exception :: "exn \<Rightarrow> bool" where
  "is_Exception e = (e \<noteq> Interrupt)"

subsection \<open>Python string methods used by GPU detection\<close>

text \<open>
  A \<open>char\<close> is a code point below 256. \<open>isspace\<close> lists the code points of that range
  for which Python's \<open>str.isspace\<close> holds; \<open>str.strip()\<close> removes them at both ends.
\<close>

definition isspace :: "char \<Rightarrow> bool" where
  "isspace c = (c \<in> set [CHR 0x09, CHR 0x0A, CHR 0x0B, CHR 0x0C, CHR 0x0D,
                          CHR 0x1C, CHR 0x1D, CHR 0x1E, CHR 0x1F, CHR 0x20,
                          CHR 0x85, CHR 0xA0])"

definition str_strip :: "string \<Rightarrow> string" where
  "str_strip s = rev (dropWhile isspace (rev (dropWhile isspace s)))"

text \<open>
  \<open>s.split(sep)\<close> for a one-character separator: the pieces between the separators, empty
  pieces kept, so the result is never empty (\<open>''.split(',')\<close> is \<open>['']\<close>).
\<close>

fun str_split :: "char \<Rightarrow> string \<Rightarrow> string list" where
  "str_split sep [] = [[]]"
| "str_split sep (c # cs) =
     (if c = sep then [] # str_split sep cs
      else (case str_split sep cs of
              [] \<Rightarrow> [[c]]
            | p # ps \<Rightarrow> (c # p) # ps))"

subsection \<open>\<open>detect_gpus\<close>\<close>

text \<open>
  \<open>subprocess.run([nvidia-smi, ...], capture_output=True, text=True, timeout=5)\<close> either
  raises (the program is absent, the timeout expires, the process cannot be started, the
  user interrupts) or returns a completed process with a return code and its output.
\<close>

record completed_process =
  returncode :: int
  stdout :: string

text \<open>The dictionary appended for one line: \<open>{'model': parts[0].strip(), 'vram': parts[1].strip()}\<close>.\<close>

definition gpu_entry :: "string list \<Rightarrow> json" where
  "gpu_entry parts =
     JObj [(''model'', JStr (str_strip (parts ! 0))), (''vram'', JStr (str_strip (parts ! 1)))]"

text \<open>
  The \<open>for line in ...\<close> loop with its accumulator \<open>gpus\<close>. \<open>parts[0]\<close> and \<open>parts[1]\<close>
  are read only under the guard \<open>len(parts) >= 2\<close>, so neither index is out of range.
\<close>

fun scan_lines :: "string list \<Rightarrow> json list \<Rightarrow> json list" where
  "scan_lines [] gpus = gpus"
| "scan_lines (line # rest) gpus =
     scan_lines rest
       (if line \<noteq> [] then
          (let parts = str_split (CHR '','') line
           in if length parts \<ge> 2 then gpus @ [gpu_entry parts] else gpus)
        else gpus)"

text \<open>
  The body of the \<open>try\<close>: the exception it ends with, if any, and the list \<open>gpus\<close> as it
  stands at that moment.
\<close>

definition detect_gpus_try :: "exn + completed_process \<Rightarrow> json list \<Rightarrow> (exn + unit) \<times> json list" where
  "detect_gpus_try run gpus =
     (case run of
        Inl e \<Rightarrow> (Inl e, gpus)
      | Inr result \<Rightarrow>
          if returncode result = 0
          then (Inr (), scan_lines (str_split (CHR 0x0A) (str_strip (stdout result))) gpus)
          else (Inr (), gpus))"

text \<open>\<open>gpus = []; try: ... except: pass; return gpus\<close>. The bare \<open>except\<close> catches everything.\<close>

definition detect_gpus :: "exn + completed_process \<Rightarrow> exn + json list" where
  "detect_gpus run =
     (case detect_gpus_try run [] of
        (Inl e, gpus) \<Rightarrow> Inr gpus
      | (Inr u, gpus) \<Rightarrow> Inr gpus)"

text \<open>The lines that produce an entry, in the claim's words.\<close>

definition gpu_line :: "string \<Rightarrow> bool" where
  "gpu_line line = (line \<noteq> [] \<and> length (str_split (CHR '','') line) \<ge> 2)"

definition output_lines :: "string \<Rightarrow> string list" where
  "output_lines out = str_split (CHR 0x0A) (str_strip out)"

subsection \<open>What the agent does to the outside\<close>

text \<open>
  The lines the agent prints, without their timestamps and decoration, and the trace of
  its actions: a frame handed to \<open>ws.send\<close> (the JSON value that \<open>json.dumps\<close>
  serialises) that went out or whose send raised, a sleep, a printed line.
  \<open>LogRegistered\<close> stands for the whole block printed on a \<open>registered\<close> message,
  \<open>LogRegisteredHead\<close> for its first line alone, when the print of the node id that
  follows it raises.
\<close>

datatype logline =
    LogConnecting string
  | LogConnected
  | LogRegistrationSent json
  | LogRegistered json
  | LogRegisteredHead
  | LogJobReceived json
  | LogJobCompleted json
  | LogServerError json
  | LogHandlerError exn
  | LogHeartbeatError exn
  | LogConnectionClosed
  | LogConnectionError exn
  | LogShutdown
  | LogFatal exn

datatype obs =
    Sent json
  | SendFailed json
  | Slept nat
  | Logged logline

subsection \<open>The agent object\<close>

text \<open>
  The attributes of \<open>self\<close> (\<open>ws\<close> tells whether \<open>self.ws\<close> holds a socket or is still
  \<open>None\<close>), the state of the task created for \<open>send_heartbeat\<close>, and the trace so far.
\<close>

datatype task = NotStarted | Active | Finished | Cancelled

record agent =
  endpoint :: string
  token :: string
  node_id :: json
  ws :: bool
  running :: bool
  heartbeat_task :: task
  trace :: "obs list"

definition init :: "string \<Rightarrow> string \<Rightarrow> agent" where
  "init ep tok =
     \<lparr>endpoint = ep, token = tok, node_id = JNull, ws = False, running = False,
      heartbeat_task = NotStarted, trace = []\<rparr>"

definition emit :: "obs \<Rightarrow> agent \<Rightarrow> agent" where
  "emit x a = a\<lparr>trace := trace a @ [x]\<rparr>"

text \<open>
  \<open>await self.ws.send(json.dumps(message))\<close>. On \<open>None\<close> the attribute lookup raises;
  on a socket the environment decides whether the frame goes out or the send raises.
\<close>

definition ws_send :: "bool \<Rightarrow> json \<Rightarrow> agent \<Rightarrow> (exn + unit) \<times> agent" where
  "ws_send ok message a =
     (if \<not> ws a then (Inl AttributeError, a)
      else if ok then (Inr (), emit (Sent message) a)
      else (Inl ConnectionClosed, emit (SendFailed message) a))"

subsection \<open>\<open>send_heartbeat\<close>\<close>

text \<open>
  One turn of the heartbeat task: what the environment supplies for it is the outcome of
  its send and the clock reading for the timestamp.
\<close>

record tick =
  tick_send_ok :: bool
  utcnow :: string

definition heartbeat_message :: "json \<Rightarrow> string \<Rightarrow> json" where
  "heartbeat_message nid ts =
     JObj [(''type'', JStr ''heartbeat''), (''nodeId'', nid), (''timestamp'', JStr ts)]"

text \<open>
  One iteration of \<open>while self.running: try: send; sleep(10) except Exception: print; break\<close>.
  The loop runs concurrently with the receive loop and has no bound of its own, so it is
  not unrolled here: the schedule of a run says when the task takes a turn, and each turn
  is one iteration. A task that has not been created, has left its loop or was cancelled
  does nothing.
\<close>

definition send_heartbeat :: "tick \<Rightarrow> agent \<Rightarrow> agent" where
  "send_heartbeat t a =
     (if heartbeat_task a \<noteq> Active then a
      else if \<not> running a then a\<lparr>heartbeat_task := Finished\<rparr>
      else (case ws_send (tick_send_ok t) (heartbeat_message (node_id a) (utcnow t)) a of
              (Inr u, a1) \<Rightarrow> emit (Slept 10) a1
            | (Inl e, a1) \<Rightarrow> (emit (Logged (LogHeartbeatError e)) a1)\<lparr>heartbeat_task := Finished\<rparr>))"

text \<open>
  \<open>await asyncio.sleep(n)\<close> inside the message handler: the handler is suspended and the
  heartbeat task runs the turns that fall into the pause.
\<close>

definition asyncio_sleep :: "nat \<Rightarrow> tick list \<Rightarrow> agent \<Rightarrow> agent" where
  "asyncio_sleep n ts a = foldl (\<lambda>b t. send_heartbeat t b) (emit (Slept n) a) ts"

subsection \<open>\<open>handle_message\<close>\<close>

type_synonym loads = "string \<Rightarrow> json option"

text \<open>
  What the environment does while one message is handled: the heartbeat turns during the
  handler's sleep, whether the task is cancelled in that sleep (the user interrupts), the
  outcome of the handler's send, and whether stdout can encode the value of the message
  that the handler prints (the node id, the job id, the server's error text). A decoded
  string can hold a code point that no encoding of stdout accepts, a lone surrogate for
  one; \<open>print\<close> then raises \<open>UnicodeEncodeError\<close>. The strings of this theory do not hold
  such code points, so the environment says whether that print succeeds. The prints of
  fixed text and of an exception's text are taken to succeed.
\<close>

record henv =
  ticks :: "tick list"
  cancelled :: bool
  send_ok :: bool
  print_ok :: bool

definition job_result_message :: "json \<Rightarrow> json \<Rightarrow> json" where
  "job_result_message job_id nid =
     JObj [(''type'', JStr ''jobResult''), (''jobId'', job_id), (''nodeId'', nid),
           (''status'', JStr ''completed''), (''result'', JStr ''Job completed successfully'')]"

text \<open>
  The body of the \<open>try\<close>. \<open>json.loads\<close> is the parameter \<open>loads\<close> (\<open>None\<close> when it
  raises); \<open>data.get\<close> exists only on a dictionary, on any other decoded value the
  attribute lookup raises. The branches are in the source's order, and so are the
  statements in them: the node id is assigned before it is printed, the job id is printed
  before the sleep and the send, and a print that raises ends the branch there.
\<close>

definition handle_message_try :: "loads \<Rightarrow> henv \<Rightarrow> string \<Rightarrow> agent \<Rightarrow> (exn + unit) \<times> agent" where
  "handle_message_try loads h message a =
     (case loads message of
        None \<Rightarrow> (Inl JSONDecodeError, a)
      | Some data \<Rightarrow>
          (case data of
             JObj d \<Rightarrow>
               (let msg_type = dict_get d ''type'' in
                if msg_type = JStr ''registered'' then
                  (let a1 = a\<lparr>node_id := dict_get d ''nodeId''\<rparr>
                   in if print_ok h then (Inr (), emit (Logged (LogRegistered (node_id a1))) a1)
                      else (Inl UnicodeEncodeError, emit (Logged LogRegisteredHead) a1))
                else if msg_type = JStr ''job'' then
                  (let job_id = dict_get d ''jobId''
                   in if \<not> print_ok h then (Inl UnicodeEncodeError, a)
                      else
                        (let a1 = emit (Logged (LogJobReceived job_id)) a;
                             a2 = asyncio_sleep 2 (ticks h) a1
                         in if cancelled h then (Inl Interrupt, a2)
                            else (case ws_send (send_ok h) (job_result_message job_id (node_id a2)) a2 of
                                    (Inl e, a3) \<Rightarrow> (Inl e, a3)
                                  | (Inr u, a3) \<Rightarrow>
                                      (Inr (), emit (Logged (LogJobCompleted job_id)) a3))))
                else if msg_type = JStr ''error'' then
                  (if print_ok h
                   then (Inr (), emit (Logged (LogServerError
                                   (dict_get_default d ''message'' (JStr ''Unknown error'')))) a)
                   else (Inl UnicodeEncodeError, a))
                else (Inr (), a))
           | _ \<Rightarrow> (Inl AttributeError, a)))"

text \<open>\<open>try: ... except Exception as e: print(...)\<close>.\<close>

definition handle_message :: "loads \<Rightarrow> henv \<Rightarrow> string \<Rightarrow> agent \<Rightarrow> (exn + unit) \<times> agent" where
  "handle_message loads h message a =
     (case handle_message_try loads h message a of
        (Inr u, a1) \<Rightarrow> (Inr (), a1)
      | (Inl e, a1) \<Rightarrow>
          if is_Exception e then (Inr (), emit (Logged (LogHandlerError e)) a1)
          else (Inl e, a1))"

subsection \<open>\<open>get_host_info\<close> and \<open>register\<close>\<close>

text \<open>The host facts: \<open>socket.gethostname()\<close>, \<open>platform.system()\<close>, \<open>release()\<close>,
  \<open>machine()\<close> and what \<open>nvidia-smi\<close> does on this host.\<close>

record host =
  hostname :: string
  os :: string
  os_version :: string
  arch :: string
  nvidia_smi :: "exn + completed_process"

definition get_host_info :: "host \<Rightarrow> exn + json" where
  "get_host_info hst =
     (case detect_gpus (nvidia_smi hst) of
        Inl e \<Rightarrow> Inl e
      | Inr gpus \<Rightarrow>
          Inr (JObj [(''hostname'', JStr (hostname hst)), (''os'', JStr (os hst)),
                     (''os_version'', JStr (os_version hst)), (''arch'', JStr (arch hst)),
                     (''gpus'', JArr gpus)]))"

definition register_message :: "string \<Rightarrow> json \<Rightarrow> json" where
  "register_message tok host_info =
     JObj [(''type'', JStr ''register''), (''token'', JStr tok), (''hostInfo'', host_info)]"

definition register :: "host \<Rightarrow> bool \<Rightarrow> agent \<Rightarrow> (exn + unit) \<times> agent" where
  "register hst ok a =
     (case get_host_info hst of
        Inl e \<Rightarrow> (Inl e, a)
      | Inr host_info \<Rightarrow>
          (case ws_send ok (register_message (token a) host_info) a of
             (Inl e, a1) \<Rightarrow> (Inl e, a1)
           | (Inr u, a1) \<Rightarrow> (Inr (), emit (Logged (LogRegistrationSent host_info)) a1)))"

subsection \<open>\<open>connect\<close> and \<open>main\<close>\<close>

text \<open>
  What happens on the connection once the heartbeat task exists: a message arrives and
  is handled, or the heartbeat task takes a turn while the receive loop waits.
\<close>

datatype event = Inbound string henv | HbTick tick

text \<open>
  \<open>async for message in websocket: await self.handle_message(message)\<close>. The iteration
  ends normally when the connection is closed cleanly (\<open>fin = None\<close>), or raises
  (\<open>ConnectionClosed\<close> on an abnormal close, \<open>Interrupt\<close> when the user stops the agent
  while it waits). An exception that leaves a handler ends the loop as well.
\<close>

fun recv_loop :: "loads \<Rightarrow> event list \<Rightarrow> exn option \<Rightarrow> agent \<Rightarrow> (exn + unit) \<times> agent" where
  "recv_loop loads [] fin a = (case fin of None \<Rightarrow> (Inr (), a) | Some e \<Rightarrow> (Inl e, a))"
| "recv_loop loads (HbTick t # evs) fin a = recv_loop loads evs fin (send_heartbeat t a)"
| "recv_loop loads (Inbound message h # evs) fin a =
     (case handle_message loads h message a of
        (Inl e, a1) \<Rightarrow> (Inl e, a1)
      | (Inr u, a1) \<Rightarrow> recv_loop loads evs fin a1)"

text \<open>
  One run of the process, as far as the outside decides it: the host, whether
  \<open>websockets.connect\<close> opens the connection or raises, whether the send of the
  registration request succeeds, the schedule of the connected phase and how the inbound
  stream ends.
\<close>

record env =
  host_facts :: host
  connect_result :: "exn option"
  register_send_ok :: bool
  events :: "event list"
  ending :: "exn option"

text \<open>\<open>heartbeat_task.cancel()\<close>: no effect on a task that is already done.\<close>

definition cancel :: "task \<Rightarrow> task" where
  "cancel t = (if t = Active then Cancelled else t)"

text \<open>
  The body of the outer \<open>try\<close> of \<open>connect\<close>: \<open>async with websockets.connect(...)\<close>,
  registration, the heartbeat task, the receive loop with its
  \<open>except ConnectionClosed\<close> and its \<open>finally\<close>.
\<close>

definition connect_try :: "loads \<Rightarrow> env \<Rightarrow> agent \<Rightarrow> (exn + unit) \<times> agent" where
  "connect_try loads e a =
     (case connect_result e of
        Some x \<Rightarrow> (Inl x, a)
      | None \<Rightarrow>
          (let a1 = emit (Logged LogConnected) (a\<lparr>ws := True, running := True\<rparr>)
           in case register (host_facts e) (register_send_ok e) a1 of
                (Inl x, a2) \<Rightarrow> (Inl x, a2)
              | (Inr u, a2) \<Rightarrow>
                  (let a3 = a2\<lparr>heartbeat_task := Active\<rparr>;
                       (r, a4) = recv_loop loads (events e) (ending e) a3;
                       (r1, a5) = (if r = Inl ConnectionClosed
                                   then (Inr (), emit (Logged LogConnectionClosed) a4)
                                   else (r, a4))
                   in (r1, a5\<lparr>running := False, heartbeat_task := cancel (heartbeat_task a5)\<rparr>))))"

text \<open>\<open>print(Connecting...); try: ... except Exception as e: print(...); raise\<close>.\<close>

definition connect :: "loads \<Rightarrow> env \<Rightarrow> agent \<Rightarrow> (exn + unit) \<times> agent" where
  "connect loads e a =
     (case connect_try loads e (emit (Logged (LogConnecting (endpoint a))) a) of
        (Inr u, a1) \<Rightarrow> (Inr (), a1)
      | (Inl x, a1) \<Rightarrow>
          if is_Exception x then (Inl x, emit (Logged (LogConnectionError x)) a1)
          else (Inl x, a1))"

text \<open>
  \<open>main\<close> after the arguments are parsed: the exit status of the process and the agent
  at the end. \<open>connect\<close> is called once; returning from \<open>main\<close> is exit status 0,
  \<open>sys.exit(1)\<close> is 1.
\<close>

definition main :: "loads \<Rightarrow> string \<Rightarrow> string \<Rightarrow> env \<Rightarrow> nat \<times> agent" where
  "main loads ep tok e =
     (case connect loads e (init ep tok) of
        (Inr u, a) \<Rightarrow> (0, a)
      | (Inl x, a) \<Rightarrow>
          if x = Interrupt then (0, emit (Logged LogShutdown) a)
          else (1, emit (Logged (LogFatal x)) a))"

subsection \<open>Reading a trace\<close>

text \<open>
  The frames that went out, the frames handed to \<open>ws.send\<close> whether or not the send
  succeeded, and the frames of one message type among them.
\<close>

fun sends :: "obs list \<Rightarrow> json list" where
  "sends [] = []"
| "sends (Sent m # xs) = m # sends xs"
| "sends (x # xs) = sends xs"

fun attempts :: "obs list \<Rightarrow> json list" where
  "attempts [] = []"
| "attempts (Sent m # xs) = m # attempts xs"
| "attempts (SendFailed m # xs) = m # attempts xs"
| "attempts (x # xs) = attempts xs"

definition of_type :: "string \<Rightarrow> json list \<Rightarrow> json list" where
  "of_type ty ms = filter (\<lambda>m. field m ''type'' = JStr ty) ms"

text \<open>The job ids of the \<open>jobResult\<close> frames that went out, in order.\<close>

definition result_ids :: "obs list \<Rightarrow> json list" where
  "result_ids tr = map (\<lambda>m. field m ''jobId'') (of_type ''jobResult'' (sends tr))"

text \<open>
  The type of an inbound message as the handler reads it, if the message decodes to a
  dictionary at all; the job assignments among the inbound messages and their ids.
\<close>

definition msg_type_of :: "loads \<Rightarrow> string \<Rightarrow> json option" where
  "msg_type_of loads message =
     (case loads message of
        Some (JObj d) \<Rightarrow> Some (dict_get d ''type'')
      | _ \<Rightarrow> None)"

definition msg_field :: "loads \<Rightarrow> string \<Rightarrow> string \<Rightarrow> json" where
  "msg_field loads message k = (case loads message of Some v \<Rightarrow> field v k | None \<Rightarrow> JNull)"

fun job_ids :: "loads \<Rightarrow> event list \<Rightarrow> json list" where
  "job_ids loads [] = []"
| "job_ids loads (Inbound message h # evs) =
     (if msg_type_of loads message = Some (JStr ''job'')
      then msg_field loads message ''jobId'' # job_ids loads evs
      else job_ids loads evs)"
| "job_ids loads (HbTick t # evs) = job_ids loads evs"

text \<open>
  The environment keeps the connection up and leaves the process alone: in every handler
  the print of the message's value and the send succeed, and no handler is cancelled.
\<close>

fun undisturbed :: "event list \<Rightarrow> bool" where
  "undisturbed [] = True"
| "undisturbed (Inbound message h # evs) =
     (print_ok h \<and> send_ok h \<and> \<not> cancelled h \<and> undisturbed evs)"
| "undisturbed (HbTick t # evs) = undisturbed evs"


text \<open>The endpoints of the connection attempts: one for every \<open>Connecting to ...\<close> line.\<close>

fun connect_attempts :: "obs list \<Rightarrow> string list" where
  "connect_attempts [] = []"
| "connect_attempts (Logged (LogConnecting ep) # xs) = ep # connect_attempts xs"
| "connect_attempts (x # xs) = connect_attempts xs"

text \<open>The durations of the sleeps in a trace.\<close>

fun sleeps :: "obs list \<Rightarrow> nat list" where
  "sleeps [] = []"
| "sleeps (Slept n # xs) = n # sleeps xs"
| "sleeps (x # xs) = sleeps xs"

text \<open>A frame built by \<open>send_heartbeat\<close>, and a frame built by the job branch of the handler.\<close>

definition is_heartbeat :: "json \<Rightarrow> bool" where
  "is_heartbeat m =
     (case field m ''timestamp'' of
        JStr ts \<Rightarrow> m = heartbeat_message (field m ''nodeId'') ts
      | _ \<Rightarrow> False)"

definition is_job_result :: "json \<Rightarrow> bool" where
  "is_job_result m = (m = job_result_message (field m ''jobId'') (field m ''nodeId''))"

text \<open>
  The actions of the connected phase (heartbeat turns and message handlers), and the
  lines printed when \<open>connect\<close> and \<open>main\<close> wind up.
\<close>

fun loop_obs :: "obs \<Rightarrow> bool" where
  "loop_obs (Sent m) = (is_heartbeat m \<or> is_job_result m)"
| "loop_obs (SendFailed m) = (is_heartbeat m \<or> is_job_result m)"
| "loop_obs (Slept n) = (n = 2 \<or> n = 10)"
| "loop_obs (Logged (LogConnecting ep)) = False"
| "loop_obs (Logged LogConnected) = False"
| "loop_obs (Logged (LogRegistrationSent hi)) = False"
| "loop_obs (Logged l) = True"

fun closing_obs :: "obs \<Rightarrow> bool" where
  "closing_obs (Logged LogConnectionClosed) = True"
| "closing_obs (Logged LogShutdown) = True"
| "closing_obs (Logged (LogConnectionError x)) = True"
| "closing_obs (Logged (LogFatal x)) = True"
| "closing_obs x = False"

text \<open>What one heartbeat turn appends to the trace.\<close>

definition hb_trace :: "tick \<Rightarrow> agent \<Rightarrow> obs list" where
  "hb_trace t a =
     (if heartbeat_task a = Active \<and> running a then
        (if \<not> ws a then [Logged (LogHeartbeatError AttributeError)]
         else if tick_send_ok t then [Sent (heartbeat_message (node_id a) (utcnow t)), Slept 10]
         else [SendFailed (heartbeat_message (node_id a) (utcnow t)),
               Logged (LogHeartbeatError ConnectionClosed)])
      else [])"

text \<open>The \<open>jobResult\<close> frames one handler adds to those that went out.\<close>

definition delivered :: "loads \<Rightarrow> henv \<Rightarrow> string \<Rightarrow> agent \<Rightarrow> json list" where
  "delivered loads h m a =
     (if msg_type_of loads m = Some (JStr ''job'') \<and> print_ok h \<and> \<not> cancelled h \<and> ws a
         \<and> send_ok h
      then [job_result_message (msg_field loads m ''jobId'') (node_id a)] else [])"

text \<open>
  The \<open>hostInfo\<close> dictionary of a host, and the agent at the moment the heartbeat task
  has been created: connected, registration request sent, no node id yet.
\<close>

definition host_info :: "host \<Rightarrow> json" where
  "host_info hst =
     JObj [(''hostname'', JStr (hostname hst)), (''os'', JStr (os hst)),
           (''os_version'', JStr (os_version hst)), (''arch'', JStr (arch hst)),
           (''gpus'', JArr (snd (detect_gpus_try (nvidia_smi hst) [])))]"

definition started :: "string \<Rightarrow> string \<Rightarrow> host \<Rightarrow> agent" where
  "started ep tok hst =
     \<lparr>endpoint = ep, token = tok, node_id = JNull, ws = True, running = True,
      heartbeat_task = Active,
      trace = [Logged (LogConnecting ep), Logged LogConnected,
               Sent (register_message tok (host_info hst)),
               Logged (LogRegistrationSent (host_info hst))]\<rparr>"

text \<open>
  What \<open>connect\<close> does before the receive loop, after its first line: nothing when the
  connection cannot be opened, else the \<open>Connected\<close> line and the registration request.
\<close>

definition handshake :: "env \<Rightarrow> string \<Rightarrow> obs list" where
  "handshake e tok =
     (if connect_result e = None then
        (if register_send_ok e
         then [Logged LogConnected, Sent (register_message tok (host_info (host_facts e))),
               Logged (LogRegistrationSent (host_info (host_facts e)))]
         else [Logged LogConnected, SendFailed (register_message tok (host_info (host_facts e)))])
      else [])"

subsection \<open>Concrete inputs\<close>

text \<open>
  A host with two GPUs, six inbound messages with the values \<open>json.loads\<close> gives for
  them, and the environment of a handler in which nothing else happens.
\<close>

definition demo_smi :: "exn + completed_process" where
  "demo_smi =
     Inr \<lparr>returncode = 0,
          stdout = ''NVIDIA A100, 40960 MiB'' @ [CHR 0x0A] @ '' '' @ [CHR 0x0A] @
                   ''no comma here'' @ [CHR 0x0A] @ ''Tesla T4 , 15360 MiB,x'' @ [CHR 0x0A]\<rparr>"

definition demo_host :: host where
  "demo_host =
     \<lparr>hostname = ''gpu-box'', os = ''Linux'', os_version = ''6.1.0'', arch = ''x86_64'',
      nvidia_smi = Inl FileNotFoundError\<rparr>"

definition demo_host_info :: json where
  "demo_host_info =
     JObj [(''hostname'', JStr ''gpu-box''), (''os'', JStr ''Linux''),
           (''os_version'', JStr ''6.1.0''), (''arch'', JStr ''x86_64''), (''gpus'', JArr [])]"

definition msg_registered :: string where
  \<open>msg_registered = ''{"type": "registered", "nodeId": "node-1"}''\<close>

definition msg_registered_again :: string where
  \<open>msg_registered_again = ''{"type": "registered", "nodeId": "node-2"}''\<close>

definition msg_job :: string where
  \<open>msg_job = ''{"type": "job", "jobId": "job-1", "script": "while True: pass", "timeoutSeconds": 5}''\<close>

definition msg_error :: string where
  \<open>msg_error = ''{"type": "error", "message": "Invalid token"}''\<close>

definition msg_unknown :: string where
  \<open>msg_unknown = ''{"type": "ping"}''\<close>

definition msg_malformed :: string where
  \<open>msg_malformed = ''{"type": ''\<close>

definition demo_loads :: loads where
  "demo_loads s =
     (if s = msg_registered then
        Some (JObj [(''type'', JStr ''registered''), (''nodeId'', JStr ''node-1'')])
      else if s = msg_registered_again then
        Some (JObj [(''type'', JStr ''registered''), (''nodeId'', JStr ''node-2'')])
      else if s = msg_job then
        Some (JObj [(''type'', JStr ''job''), (''jobId'', JStr ''job-1''),
                    (''script'', JStr ''while True: pass''), (''timeoutSeconds'', JNum 5)])
      else if s = msg_error then
        Some (JObj [(''type'', JStr ''error''), (''message'', JStr ''Invalid token'')])
      else if s = msg_unknown then
        Some (JObj [(''type'', JStr ''ping'')])
      else None)"

definition quiet :: henv where
  "quiet = \<lparr>ticks = [], cancelled = False, send_ok = True, print_ok = True\<rparr>"

definition demo_tick :: tick where
  "demo_tick = \<lparr>tick_send_ok = True, utcnow = ''2025-01-01T00:00:00''\<rparr>"

definition demo_env :: "event list \<Rightarrow> env" where
  "demo_env evs =
     \<lparr>host_facts = demo_host, connect_result = None, register_send_ok = True,
      events = evs, ending = None\<rparr>"

section \<open>Properties\<close>

subsection \<open>Strings\<close>

lemma str_split_nonempty: "str_split sep s \<noteq> []"
  by (induction s) (auto split: list.splits)

lemma str_split_no_sep: "p \<in> set (str_split sep s) \<Longrightarrow> sep \<notin> set p"
  by (induction s arbitrary: p) (auto split: if_splits list.splits)

lemma str_split_length: "length (str_split sep s) = Suc (length (filter (\<lambda>c. c = sep) s))"
  by (induction s) (auto split: list.splits simp: str_split_nonempty)

lemma str_strip_prefix:
  "dropWhile isspace s = str_strip s @ rev (takeWhile isspace (rev (dropWhile isspace s)))"
proof -
  let ?a = "dropWhile isspace s"
  have "rev (dropWhile isspace (rev ?a)) @ rev (takeWhile isspace (rev ?a))
        = rev (takeWhile isspace (rev ?a) @ dropWhile isspace (rev ?a))"
    by (simp only: rev_append)
  also have "\<dots> = rev (rev ?a)"
    by (simp only: takeWhile_dropWhile_id)
  also have "\<dots> = ?a"
    by simp
  finally show ?thesis
    by (simp add: str_strip_def)
qed

lemma str_strip_no_leading: "str_strip s \<noteq> [] \<Longrightarrow> \<not> isspace (hd (str_strip s))"
proof -
  let ?a = "dropWhile isspace s"
  assume ne: "str_strip s \<noteq> []"
  have "hd ?a = hd (str_strip s @ rev (takeWhile isspace (rev ?a)))"
    using str_strip_prefix [of s] by simp
  with ne have h: "hd ?a = hd (str_strip s)"
    by simp
  have "?a \<noteq> []"
    using ne str_strip_prefix [of s] by (metis append_is_Nil_conv)
  then have "\<not> isspace (hd ?a)"
    by (rule hd_dropWhile)
  with h show ?thesis by simp
qed

lemma str_strip_no_trailing: "str_strip s \<noteq> [] \<Longrightarrow> \<not> isspace (last (str_strip s))"
proof -
  assume ne: "str_strip s \<noteq> []"
  then have r: "dropWhile isspace (rev (dropWhile isspace s)) \<noteq> []"
    by (simp add: str_strip_def)
  then have "\<not> isspace (hd (dropWhile isspace (rev (dropWhile isspace s))))"
    by (rule hd_dropWhile)
  then show ?thesis
    using r by (simp add: str_strip_def last_rev)
qed

subsection \<open>GPU detection\<close>

lemma scan_lines_filter:
  "scan_lines ls gpus = gpus @ map (\<lambda>l. gpu_entry (str_split (CHR '','') l)) (filter gpu_line ls)"
  by (induction ls arbitrary: gpus) (simp_all add: gpu_line_def Let_def)

subsection \<open>The agent\<close>

lemma emit_simps [simp]:
  "trace (emit x a) = trace a @ [x]"
  "node_id (emit x a) = node_id a"
  "ws (emit x a) = ws a"
  "running (emit x a) = running a"
  "heartbeat_task (emit x a) = heartbeat_task a"
  "token (emit x a) = token a"
  "endpoint (emit x a) = endpoint a"
  by (simp_all add: emit_def)

lemma sends_append [simp]: "sends (xs @ ys) = sends xs @ sends ys"
  by (induction xs rule: sends.induct) simp_all

lemma attempts_append [simp]: "attempts (xs @ ys) = attempts xs @ attempts ys"
  by (induction xs rule: attempts.induct) simp_all

lemma of_type_append [simp]: "of_type ty (xs @ ys) = of_type ty xs @ of_type ty ys"
  by (simp add: of_type_def)

lemma of_type_Nil [simp]: "of_type ty [] = []"
  by (simp add: of_type_def)

lemma field_heartbeat [simp]: "field (heartbeat_message nid ts) ''type'' = JStr ''heartbeat''"
  by (simp add: heartbeat_message_def field_def dict_get_def dict_get_default_def)

lemma field_job_result [simp]:
  "field (job_result_message j nid) ''type'' = JStr ''jobResult''"
  "field (job_result_message j nid) ''jobId'' = j"
  "field (job_result_message j nid) ''nodeId'' = nid"
  "field (job_result_message j nid) ''status'' = JStr ''completed''"
  "field (job_result_message j nid) ''result'' = JStr ''Job completed successfully''"
  by (simp_all add: job_result_message_def field_def dict_get_def dict_get_default_def)

lemma field_register [simp]:
  "field (register_message tok hi) ''type'' = JStr ''register''"
  "field (register_message tok hi) ''token'' = JStr tok"
  "field (register_message tok hi) ''hostInfo'' = hi"
  by (simp_all add: register_message_def field_def dict_get_def dict_get_default_def)

lemma send_heartbeat_trace: "trace (send_heartbeat t a) = trace a @ hb_trace t a"
  by (simp add: send_heartbeat_def hb_trace_def ws_send_def)

lemma send_heartbeat_frame [simp]:
  "node_id (send_heartbeat t a) = node_id a"
  "ws (send_heartbeat t a) = ws a"
  "running (send_heartbeat t a) = running a"
  "token (send_heartbeat t a) = token a"
  by (simp_all add: send_heartbeat_def ws_send_def)

lemma is_heartbeat_message [simp]: "is_heartbeat (heartbeat_message nid ts)"
  by (simp add: is_heartbeat_def heartbeat_message_def field_def dict_get_def dict_get_default_def)

lemma is_job_result_message [simp]: "is_job_result (job_result_message j nid)"
  by (simp add: is_job_result_def job_result_message_def field_def dict_get_def dict_get_default_def)

lemma is_heartbeat_type: "is_heartbeat m \<Longrightarrow> field m ''type'' = JStr ''heartbeat''"
proof -
  assume "is_heartbeat m"
  then obtain ts where "m = heartbeat_message (field m ''nodeId'') ts"
    by (auto simp: is_heartbeat_def split: json.splits)
  then show ?thesis
    by (metis field_heartbeat)
qed

lemma is_job_result_type: "is_job_result m \<Longrightarrow> field m ''type'' = JStr ''jobResult''"
  by (simp add: is_job_result_def) (metis field_job_result(1))

lemma hb_trace_loop_obs: "x \<in> set (hb_trace t a) \<Longrightarrow> loop_obs x"
  by (auto simp: hb_trace_def split: if_splits)

lemma hb_trace_no_results [simp]: "of_type ''jobResult'' (sends (hb_trace t a)) = []"
  by (simp add: hb_trace_def of_type_def)

lemma asyncio_sleep_frame [simp]:
  "node_id (asyncio_sleep n ts a) = node_id a"
  "ws (asyncio_sleep n ts a) = ws a"
  "running (asyncio_sleep n ts a) = running a"
  "token (asyncio_sleep n ts a) = token a"
proof -
  have "\<And>b. node_id (foldl (\<lambda>b t. send_heartbeat t b) b ts) = node_id b
          \<and> ws (foldl (\<lambda>b t. send_heartbeat t b) b ts) = ws b
          \<and> running (foldl (\<lambda>b t. send_heartbeat t b) b ts) = running b
          \<and> token (foldl (\<lambda>b t. send_heartbeat t b) b ts) = token b"
    by (induction ts) simp_all
  then show "node_id (asyncio_sleep n ts a) = node_id a"
  "ws (asyncio_sleep n ts a) = ws a"
  "running (asyncio_sleep n ts a) = running a"
  "token (asyncio_sleep n ts a) = token a"
    by (simp_all add: asyncio_sleep_def)
qed

lemma heartbeats_trace:
  "\<exists>xs. trace (foldl (\<lambda>b t. send_heartbeat t b) b ts) = trace b @ xs
        \<and> (\<forall>x \<in> set xs. loop_obs x) \<and> of_type ''jobResult'' (sends xs) = []"
proof (induction ts arbitrary: b)
  case Nil
  show ?case by simp
next
  case (Cons t ts)
  from Cons.IH [of "send_heartbeat t b"] obtain xs where
    xs: "trace (foldl (\<lambda>b t. send_heartbeat t b) (send_heartbeat t b) ts) = trace (send_heartbeat t b) @ xs"
      "\<forall>x \<in> set xs. loop_obs x" "of_type ''jobResult'' (sends xs) = []"
    by blast
  show ?case
  proof (intro exI conjI)
    show "trace (foldl (\<lambda>b t. send_heartbeat t b) b (t # ts)) = trace b @ (hb_trace t b @ xs)"
      using xs(1) by (simp add: send_heartbeat_trace)
    show "\<forall>x \<in> set (hb_trace t b @ xs). loop_obs x"
      using xs(2) by (auto dest: hb_trace_loop_obs)
    show "of_type ''jobResult'' (sends (hb_trace t b @ xs)) = []"
      using xs(3) by simp
  qed
qed

lemma asyncio_sleep_trace:
  "n = 2 \<Longrightarrow> \<exists>xs. trace (asyncio_sleep n ts a) = trace a @ xs
        \<and> (\<forall>x \<in> set xs. loop_obs x) \<and> of_type ''jobResult'' (sends xs) = []"
proof -
  assume n: "n = 2"
  from heartbeats_trace [of "emit (Slept n) a" ts] obtain xs where
    xs: "trace (asyncio_sleep n ts a) = trace a @ [Slept n] @ xs"
      "\<forall>x \<in> set xs. loop_obs x" "of_type ''jobResult'' (sends xs) = []"
    by (auto simp: asyncio_sleep_def)
  show ?thesis
  proof (intro exI conjI)
    show "trace (asyncio_sleep n ts a) = trace a @ ([Slept n] @ xs)"
      using xs(1) by simp
    show "\<forall>x \<in> set ([Slept n] @ xs). loop_obs x"
      using xs(2) n by simp
    show "of_type ''jobResult'' (sends ([Slept n] @ xs)) = []"
      using xs(3) by simp
  qed
qed

lemma message_cases [case_names undecodable not_dict registered job error other]:
  obtains "loads m = None"
  | v where "loads m = Some v" "\<forall>d. v \<noteq> JObj d"
  | d where "loads m = Some (JObj d)" "dict_get d ''type'' = JStr ''registered''"
  | d where "loads m = Some (JObj d)" "dict_get d ''type'' = JStr ''job''"
  | d where "loads m = Some (JObj d)" "dict_get d ''type'' = JStr ''error''"
  | d where "loads m = Some (JObj d)" "dict_get d ''type'' \<noteq> JStr ''registered''"
      "dict_get d ''type'' \<noteq> JStr ''job''" "dict_get d ''type'' \<noteq> JStr ''error''"
proof (cases "loads m")
  case None
  then show ?thesis using that(1) by simp
next
  case (Some v)
  show ?thesis
  proof (cases "\<exists>d. v = JObj d")
    case False
    with Some show ?thesis using that(2) by simp
  next
    case True
    then obtain d where "v = JObj d" by blast
    with Some show ?thesis using that(3-6) [of d] by blast
  qed
qed

lemma handle_message_undecodable:
  "loads m = None \<Longrightarrow>
   handle_message loads h m a = (Inr (), emit (Logged (LogHandlerError JSONDecodeError)) a)"
  by (simp add: handle_message_def handle_message_try_def is_Exception_def)

lemma handle_message_not_dict:
  "loads m = Some v \<Longrightarrow> \<forall>d. v \<noteq> JObj d \<Longrightarrow>
   handle_message loads h m a = (Inr (), emit (Logged (LogHandlerError AttributeError)) a)"
  by (cases v) (simp_all add: handle_message_def handle_message_try_def is_Exception_def)

lemma handle_message_registered:
  "loads m = Some (JObj d) \<Longrightarrow> dict_get d ''type'' = JStr ''registered'' \<Longrightarrow>
   handle_message loads h m a =
     (Inr (), emit (Logged (if print_ok h then LogRegistered (dict_get d ''nodeId'')
                            else LogHandlerError UnicodeEncodeError))
                ((if print_ok h then a else emit (Logged LogRegisteredHead) a)
                   \<lparr>node_id := dict_get d ''nodeId''\<rparr>))"
  by (simp add: handle_message_def handle_message_try_def is_Exception_def emit_def)

lemma handle_message_server_error:
  "loads m = Some (JObj d) \<Longrightarrow> dict_get d ''type'' = JStr ''error'' \<Longrightarrow>
   handle_message loads h m a =
     (Inr (), emit (Logged (if print_ok h
                            then LogServerError (dict_get_default d ''message'' (JStr ''Unknown error''))
                            else LogHandlerError UnicodeEncodeError)) a)"
  by (simp add: handle_message_def handle_message_try_def is_Exception_def)

lemma handle_message_other:
  "loads m = Some (JObj d) \<Longrightarrow> dict_get d ''type'' \<noteq> JStr ''registered'' \<Longrightarrow>
   dict_get d ''type'' \<noteq> JStr ''job'' \<Longrightarrow> dict_get d ''type'' \<noteq> JStr ''error'' \<Longrightarrow>
   handle_message loads h m a = (Inr (), a)"
  by (simp add: handle_message_def handle_message_try_def)

lemma handle_message_job:
  "loads m = Some (JObj d) \<Longrightarrow> dict_get d ''type'' = JStr ''job'' \<Longrightarrow>
   handle_message loads h m a =
     (let jid = dict_get d ''jobId'';
          a2 = asyncio_sleep 2 (ticks h) (emit (Logged (LogJobReceived jid)) a)
      in if \<not> print_ok h then (Inr (), emit (Logged (LogHandlerError UnicodeEncodeError)) a)
         else if cancelled h then (Inl Interrupt, a2)
         else if \<not> ws a then (Inr (), emit (Logged (LogHandlerError AttributeError)) a2)
         else if send_ok h then
           (Inr (), emit (Logged (LogJobCompleted jid)) (emit (Sent (job_result_message jid (node_id a))) a2))
         else (Inr (), emit (Logged (LogHandlerError ConnectionClosed))
                         (emit (SendFailed (job_result_message jid (node_id a))) a2)))"
  by (simp add: handle_message_def handle_message_try_def ws_send_def is_Exception_def Let_def)

lemma handle_message_frame [simp]:
  "ws (snd (handle_message loads h m a)) = ws a"
  "running (snd (handle_message loads h m a)) = running a"
  "token (snd (handle_message loads h m a)) = token a"
  by (cases loads m rule: message_cases;
      simp add: handle_message_undecodable handle_message_not_dict handle_message_registered
        handle_message_server_error handle_message_other handle_message_job Let_def)+

lemma handle_message_node_id:
  "node_id (snd (handle_message loads h m a)) =
     (if msg_type_of loads m = Some (JStr ''registered'') then msg_field loads m ''nodeId''
      else node_id a)"
  by (cases loads m rule: message_cases)
     (auto simp add: handle_message_undecodable handle_message_not_dict handle_message_registered
        handle_message_server_error handle_message_other handle_message_job Let_def
        msg_type_of_def msg_field_def field_def split: json.splits)

lemma handle_message_trace:
  "\<exists>xs. trace (snd (handle_message loads h m a)) = trace a @ xs
        \<and> (\<forall>x \<in> set xs. loop_obs x)
        \<and> of_type ''jobResult'' (sends xs) = delivered loads h m a"
proof (cases loads m rule: message_cases)
  case undecodable
  then show ?thesis
    by (simp add: handle_message_undecodable delivered_def msg_type_of_def)
next
  case (not_dict v)
  then show ?thesis
    by (cases v) (simp_all add: handle_message_not_dict delivered_def msg_type_of_def)
next
  case (registered d)
  then show ?thesis
    by (simp add: handle_message_registered delivered_def msg_type_of_def)
next
  case (error d)
  then show ?thesis
    by (simp add: handle_message_server_error delivered_def msg_type_of_def)
next
  case (other d)
  then show ?thesis
    by (simp add: handle_message_other delivered_def msg_type_of_def)
next
  case (job d)
  let ?jid = "dict_get d ''jobId''"
  let ?a1 = "emit (Logged (LogJobReceived ?jid)) a"
  show ?thesis
  proof (cases "print_ok h")
    case False
    with job show ?thesis
      by (simp add: handle_message_job delivered_def)
  next
    case True
    from asyncio_sleep_trace [of 2 "ticks h" ?a1] obtain xs where
      xs: "trace (asyncio_sleep 2 (ticks h) ?a1) = trace ?a1 @ xs"
        "\<forall>x \<in> set xs. loop_obs x" "of_type ''jobResult'' (sends xs) = []"
      by blast
    have d: "delivered loads h m a =
        (if \<not> cancelled h \<and> ws a \<and> send_ok h then [job_result_message ?jid (node_id a)] else [])"
      using job True by (simp add: delivered_def msg_type_of_def msg_field_def field_def)
    let ?tail = "if cancelled h then []
         else if \<not> ws a then [Logged (LogHandlerError AttributeError)]
         else if send_ok h then [Sent (job_result_message ?jid (node_id a)), Logged (LogJobCompleted ?jid)]
         else [SendFailed (job_result_message ?jid (node_id a)), Logged (LogHandlerError ConnectionClosed)]"
    show ?thesis
    proof (intro exI conjI)
      show "trace (snd (handle_message loads h m a)) = trace a @ ([Logged (LogJobReceived ?jid)] @ xs @ ?tail)"
        using job True xs(1) by (simp add: handle_message_job Let_def)
      show "\<forall>x \<in> set ([Logged (LogJobReceived ?jid)] @ xs @ ?tail). loop_obs x"
        using xs(2) by simp
      show "of_type ''jobResult'' (sends ([Logged (LogJobReceived ?jid)] @ xs @ ?tail)) = delivered loads h m a"
        using xs(3) by (simp add: d of_type_def)
    qed
  qed
qed

lemma result_ids_append [simp]: "result_ids (xs @ ys) = result_ids xs @ result_ids ys"
  by (simp add: result_ids_def)

lemma result_ids_Nil [simp]: "result_ids [] = []"
  by (simp add: result_ids_def)

lemma handle_message_returns:
  "fst (handle_message loads h m a) =
     (if msg_type_of loads m = Some (JStr ''job'') \<and> print_ok h \<and> cancelled h
      then Inl Interrupt else Inr ())"
  by (cases loads m rule: message_cases)
     (auto simp add: handle_message_undecodable handle_message_not_dict handle_message_registered
        handle_message_server_error handle_message_other handle_message_job Let_def
        msg_type_of_def split: json.splits)

lemma result_ids_delivered:
  "of_type ''jobResult'' (sends xs) = delivered loads h m a \<Longrightarrow>
   result_ids xs =
     (if msg_type_of loads m = Some (JStr ''job'') \<and> print_ok h \<and> \<not> cancelled h \<and> ws a
         \<and> send_ok h
      then [msg_field loads m ''jobId''] else [])"
  by (simp add: result_ids_def delivered_def)

lemma recv_loop_frame [simp]:
  "ws (snd (recv_loop loads evs fin a)) = ws a"
  "running (snd (recv_loop loads evs fin a)) = running a"
  "token (snd (recv_loop loads evs fin a)) = token a"
proof -
  have "ws (snd (recv_loop loads evs fin a)) = ws a
      \<and> running (snd (recv_loop loads evs fin a)) = running a
      \<and> token (snd (recv_loop loads evs fin a)) = token a"
  proof (induction loads evs fin a rule: recv_loop.induct)
    case (1 loads fin a)
    show ?case by (simp split: option.splits)
  next
    case (2 loads t evs fin a)
    then show ?case by simp
  next
    case (3 loads message h evs fin a)
    show ?case
    proof (cases "handle_message loads h message a")
      case (Pair r a1)
      have fr: "ws a1 = ws a" "running a1 = running a" "token a1 = token a"
        using handle_message_frame [of loads h message a] Pair by simp_all
      show ?thesis
      proof (cases r)
        case (Inl e)
        with Pair fr show ?thesis by simp
      next
        case (Inr u)
        with Pair fr "3.IH" [of r a1 u] show ?thesis by simp
      qed
    qed
  qed
  then show "ws (snd (recv_loop loads evs fin a)) = ws a"
    "running (snd (recv_loop loads evs fin a)) = running a"
    "token (snd (recv_loop loads evs fin a)) = token a"
    by simp_all
qed


lemma recv_loop_trace:
  "\<exists>xs. trace (snd (recv_loop loads evs fin a)) = trace a @ xs
        \<and> (\<forall>x \<in> set xs. loop_obs x)
        \<and> (\<forall>j. count_list (result_ids xs) j \<le> count_list (job_ids loads evs) j)
        \<and> (undisturbed evs \<and> ws a \<longrightarrow> result_ids xs = job_ids loads evs)"
proof (induction loads evs fin a rule: recv_loop.induct)
  case (1 loads fin a)
  show ?case by (simp split: option.splits)
next
  case (2 loads t evs fin a)
  then obtain xs where
    xs: "trace (snd (recv_loop loads evs fin (send_heartbeat t a))) = trace (send_heartbeat t a) @ xs"
      "\<forall>x \<in> set xs. loop_obs x"
      "\<forall>j. count_list (result_ids xs) j \<le> count_list (job_ids loads evs) j"
      "undisturbed evs \<and> ws a \<longrightarrow> result_ids xs = job_ids loads evs"
    by auto
  have hb: "result_ids (hb_trace t a) = []"
    by (simp add: result_ids_def)
  show ?case
  proof (intro exI conjI)
    show "trace (snd (recv_loop loads (HbTick t # evs) fin a)) = trace a @ (hb_trace t a @ xs)"
      using xs(1) by (simp add: send_heartbeat_trace)
    show "\<forall>x \<in> set (hb_trace t a @ xs). loop_obs x"
      using xs(2) by (auto dest: hb_trace_loop_obs)
    show "\<forall>j. count_list (result_ids (hb_trace t a @ xs)) j \<le> count_list (job_ids loads (HbTick t # evs)) j"
      using xs(3) hb by simp
    show "undisturbed (HbTick t # evs) \<and> ws a \<longrightarrow> result_ids (hb_trace t a @ xs) = job_ids loads (HbTick t # evs)"
      using xs(4) hb by simp
  qed
next
  case (3 loads message h evs fin a)
  obtain r a1 where p: "handle_message loads h message a = (r, a1)"
    by (cases "handle_message loads h message a")
  from handle_message_trace [of loads h message a] p obtain ys where
    ys: "trace a1 = trace a @ ys" "\<forall>x \<in> set ys. loop_obs x"
      "of_type ''jobResult'' (sends ys) = delivered loads h message a"
    by auto
  note ids = result_ids_delivered [OF ys(3)]
  have w1: "ws a1 = ws a"
    using handle_message_frame(1) [of loads h message a] p by simp
  show ?case
  proof (cases r)
    case (Inl e)
    from handle_message_returns [of loads h message a] p Inl
    have c: "cancelled h"
      by (simp split: if_splits)
    show ?thesis
    proof (intro exI conjI)
      show "trace (snd (recv_loop loads (Inbound message h # evs) fin a)) = trace a @ ys"
        using p Inl ys(1) by simp
      show "\<forall>x \<in> set ys. loop_obs x"
        by (rule ys(2))
      show "\<forall>j. count_list (result_ids ys) j \<le> count_list (job_ids loads (Inbound message h # evs)) j"
        using ids c by simp
      show "undisturbed (Inbound message h # evs) \<and> ws a \<longrightarrow> result_ids ys = job_ids loads (Inbound message h # evs)"
        using c by simp
    qed
  next
    case (Inr u)
    from "3.IH" [of r a1 u] p Inr obtain xs where
      xs: "trace (snd (recv_loop loads evs fin a1)) = trace a1 @ xs"
        "\<forall>x \<in> set xs. loop_obs x"
        "\<forall>j. count_list (result_ids xs) j \<le> count_list (job_ids loads evs) j"
        "undisturbed evs \<and> ws a1 \<longrightarrow> result_ids xs = job_ids loads evs"
      by auto
    show ?thesis
    proof (intro exI conjI)
      show "trace (snd (recv_loop loads (Inbound message h # evs) fin a)) = trace a @ (ys @ xs)"
        using p Inr ys(1) xs(1) by simp
      show "\<forall>x \<in> set (ys @ xs). loop_obs x"
        using ys(2) xs(2) by auto
      show "\<forall>j. count_list (result_ids (ys @ xs)) j \<le> count_list (job_ids loads (Inbound message h # evs)) j"
      proof
        fix j
        from xs(3) have "count_list (result_ids xs) j \<le> count_list (job_ids loads evs) j"
          by blast
        then show "count_list (result_ids (ys @ xs)) j \<le> count_list (job_ids loads (Inbound message h # evs)) j"
          using ids by simp
      qed
      show "undisturbed (Inbound message h # evs) \<and> ws a \<longrightarrow> result_ids (ys @ xs) = job_ids loads (Inbound message h # evs)"
        using xs(4) ids w1 by simp
    qed
  qed
qed

lemma detect_gpus_Inr: "detect_gpus run = Inr (snd (detect_gpus_try run []))"
  by (simp add: detect_gpus_def split: prod.splits sum.splits)

lemma get_host_info_Inr: "get_host_info hst = Inr (host_info hst)"
  by (simp add: get_host_info_def host_info_def detect_gpus_Inr)

lemma init_endpoint [simp]: "endpoint (init ep tok) = ep"
  by (simp add: init_def)

lemma main_refused:
  "connect_result e = Some x \<Longrightarrow>
   main loads ep tok e =
     (if x = Interrupt
      then (0, emit (Logged LogShutdown) (emit (Logged (LogConnecting ep)) (init ep tok)))
      else (1, emit (Logged (LogFatal x)) (emit (Logged (LogConnectionError x))
                 (emit (Logged (LogConnecting ep)) (init ep tok)))))"
  by (simp add: main_def connect_def connect_try_def is_Exception_def)

lemma main_register_failed:
  "connect_result e = None \<Longrightarrow> \<not> register_send_ok e \<Longrightarrow>
   fst (main loads ep tok e) = 1 \<and>
   trace (snd (main loads ep tok e)) =
     [Logged (LogConnecting ep), Logged LogConnected,
      SendFailed (register_message tok (host_info (host_facts e))),
      Logged (LogConnectionError ConnectionClosed), Logged (LogFatal ConnectionClosed)]"
  by (simp add: main_def connect_def connect_try_def register_def get_host_info_Inr ws_send_def
      is_Exception_def init_def Let_def)

lemma main_connected:
  assumes "connect_result e = None" "register_send_ok e"
  shows "fst (main loads ep tok e) =
           (case fst (recv_loop loads (events e) (ending e) (started ep tok (host_facts e))) of
              Inr u \<Rightarrow> 0
            | Inl x \<Rightarrow> if x = ConnectionClosed \<or> x = Interrupt then 0 else 1)"
    and "\<exists>tail. trace (snd (main loads ep tok e)) =
           trace (snd (recv_loop loads (events e) (ending e) (started ep tok (host_facts e)))) @ tail
           \<and> (\<forall>x \<in> set tail. closing_obs x)"
proof -
  let ?a3 = "started ep tok (host_facts e)"
  obtain r a4 where p: "recv_loop loads (events e) (ending e) ?a3 = (r, a4)"
    by (cases "recv_loop loads (events e) (ending e) ?a3")
  have reg: "register (host_facts e) (register_send_ok e)
        (emit (Logged LogConnected) ((emit (Logged (LogConnecting ep)) (init ep tok))\<lparr>ws := True, running := True\<rparr>))
      = (Inr (), ?a3\<lparr>heartbeat_task := NotStarted\<rparr>)"
    using assms(2)
    by (simp add: register_def get_host_info_Inr ws_send_def init_def emit_def started_def)
  have a3: "(?a3\<lparr>heartbeat_task := NotStarted\<rparr>)\<lparr>heartbeat_task := Active\<rparr> = ?a3"
    by (simp add: started_def)
  have ct: "connect_try loads e (emit (Logged (LogConnecting ep)) (init ep tok)) =
      (let (r1, a5) = (if r = Inl ConnectionClosed
                       then (Inr (), emit (Logged LogConnectionClosed) a4) else (r, a4))
       in (r1, a5\<lparr>running := False, heartbeat_task := cancel (heartbeat_task a5)\<rparr>))"
    using assms(1) by (simp add: connect_try_def reg a3 p Let_def)
  show "fst (main loads ep tok e) =
           (case fst (recv_loop loads (events e) (ending e) ?a3) of
              Inr u \<Rightarrow> 0
            | Inl x \<Rightarrow> if x = ConnectionClosed \<or> x = Interrupt then 0 else 1)"
    by (cases r) (auto simp add: main_def connect_def ct p is_Exception_def)
  show "\<exists>tail. trace (snd (main loads ep tok e)) =
           trace (snd (recv_loop loads (events e) (ending e) ?a3)) @ tail
           \<and> (\<forall>x \<in> set tail. closing_obs x)"
    by (cases r) (auto simp add: main_def connect_def ct p is_Exception_def)
qed

lemma connect_attempts_append [simp]:
  "connect_attempts (xs @ ys) = connect_attempts xs @ connect_attempts ys"
  by (induction xs rule: connect_attempts.induct) simp_all

lemma sleeps_append [simp]: "sleeps (xs @ ys) = sleeps xs @ sleeps ys"
  by (induction xs rule: sleeps.induct) simp_all

lemma loop_obs_quiet:
  "\<forall>x \<in> set xs. loop_obs x \<Longrightarrow>
   connect_attempts xs = [] \<and> of_type ''register'' (attempts xs) = []
   \<and> (\<forall>n \<in> set (sleeps xs). n = 2 \<or> n = 10)
   \<and> (\<forall>m \<in> set (of_type ''jobResult'' (sends xs)). is_job_result m)"
proof (induction xs)
  case Nil
  show ?case by simp
next
  case (Cons x xs)
  then have ih: "connect_attempts xs = []" "of_type ''register'' (attempts xs) = []"
      "\<forall>n \<in> set (sleeps xs). n = 2 \<or> n = 10"
      "\<forall>m \<in> set (of_type ''jobResult'' (sends xs)). is_job_result m"
    and x: "loop_obs x"
    by simp_all
  show ?case
  proof (cases x)
    case (Sent m)
    with x have "is_heartbeat m \<or> is_job_result m" by simp
    then show ?thesis
      using ih Sent by (auto simp: of_type_def dest: is_heartbeat_type is_job_result_type)
  next
    case (SendFailed m)
    with x have "is_heartbeat m \<or> is_job_result m" by simp
    then show ?thesis
      using ih SendFailed by (auto simp: of_type_def dest: is_heartbeat_type is_job_result_type)
  next
    case (Slept n)
    with x ih show ?thesis by simp
  next
    case (Logged l)
    with x ih show ?thesis by (cases l) simp_all
  qed
qed

lemma closing_obs_quiet:
  "\<forall>x \<in> set xs. closing_obs x \<Longrightarrow>
   connect_attempts xs = [] \<and> attempts xs = [] \<and> sends xs = [] \<and> sleeps xs = []"
proof (induction xs)
  case Nil
  show ?case by simp
next
  case (Cons x xs)
  then have ih: "connect_attempts xs = []" "attempts xs = []" "sends xs = []" "sleeps xs = []"
    and x: "closing_obs x"
    by simp_all
  show ?case
  proof (cases x)
    case (Logged l)
    with x ih show ?thesis by (cases l) simp_all
  qed (use x in simp_all)
qed

lemma main_trace:
  "\<exists>xs tail.
      trace (snd (main loads ep tok e)) = Logged (LogConnecting ep) # handshake e tok @ xs @ tail
      \<and> (\<forall>x \<in> set xs. loop_obs x) \<and> (\<forall>x \<in> set tail. closing_obs x)
      \<and> (\<forall>j. count_list (result_ids xs) j \<le> count_list (job_ids loads (events e)) j)
      \<and> (connect_result e = None \<and> register_send_ok e \<and> undisturbed (events e)
            \<longrightarrow> result_ids xs = job_ids loads (events e))"
proof (cases "connect_result e")
  case (Some x)
  have "trace (snd (main loads ep tok e)) =
      Logged (LogConnecting ep) # handshake e tok @ [] @
        (if x = Interrupt then [Logged LogShutdown]
         else [Logged (LogConnectionError x), Logged (LogFatal x)])"
    using Some by (simp add: main_refused handshake_def init_def)
  moreover have "\<forall>y \<in> set (if x = Interrupt then [Logged LogShutdown]
         else [Logged (LogConnectionError x), Logged (LogFatal x)]). closing_obs y"
    by simp
  ultimately show ?thesis
    using Some by (intro exI [of _ "[]"] exI conjI) (assumption, simp_all)
next
  case None
  show ?thesis
  proof (cases "register_send_ok e")
    case False
    have "trace (snd (main loads ep tok e)) =
        Logged (LogConnecting ep) # handshake e tok @ [] @
          [Logged (LogConnectionError ConnectionClosed), Logged (LogFatal ConnectionClosed)]"
      using None False main_register_failed [of e loads ep tok] by (simp add: handshake_def)
    moreover have "\<forall>y \<in> set [Logged (LogConnectionError ConnectionClosed),
        Logged (LogFatal ConnectionClosed)]. closing_obs y"
      by simp
    ultimately show ?thesis
      using False by (intro exI [of _ "[]"] exI conjI) (assumption, simp_all)
  next
    case True
    let ?a3 = "started ep tok (host_facts e)"
    from main_connected(2) [OF None True, of loads ep tok] obtain tail where
      tail: "trace (snd (main loads ep tok e)) =
          trace (snd (recv_loop loads (events e) (ending e) ?a3)) @ tail"
        "\<forall>x \<in> set tail. closing_obs x"
      by blast
    from recv_loop_trace [of loads "events e" "ending e" ?a3] obtain xs where
      xs: "trace (snd (recv_loop loads (events e) (ending e) ?a3)) = trace ?a3 @ xs"
        "\<forall>x \<in> set xs. loop_obs x"
        "\<forall>j. count_list (result_ids xs) j \<le> count_list (job_ids loads (events e)) j"
        "undisturbed (events e) \<and> ws ?a3 \<longrightarrow> result_ids xs = job_ids loads (events e)"
      by blast
    have w: "ws ?a3"
      by (simp add: started_def)
    have "trace (snd (main loads ep tok e)) = Logged (LogConnecting ep) # handshake e tok @ xs @ tail"
      using tail(1) xs(1) None True by (simp add: started_def handshake_def)
    then show ?thesis
      using tail(2) xs(2,3,4) w by blast
  qed
qed

lemma demo_loads_simps [simp]:
  "demo_loads msg_registered = Some (JObj [(''type'', JStr ''registered''), (''nodeId'', JStr ''node-1'')])"
  "demo_loads msg_registered_again = Some (JObj [(''type'', JStr ''registered''), (''nodeId'', JStr ''node-2'')])"
  "demo_loads msg_job = Some (JObj [(''type'', JStr ''job''), (''jobId'', JStr ''job-1''),
                    (''script'', JStr ''while True: pass''), (''timeoutSeconds'', JNum 5)])"
  "demo_loads msg_error = Some (JObj [(''type'', JStr ''error''), (''message'', JStr ''Invalid token'')])"
  "demo_loads msg_unknown = Some (JObj [(''type'', JStr ''ping'')])"
  "demo_loads msg_malformed = None"
  by (simp_all add: demo_loads_def msg_registered_def msg_registered_again_def msg_job_def
      msg_error_def msg_unknown_def msg_malformed_def)

lemma demo_host_info: "host_info demo_host = demo_host_info"
  by (simp add: host_info_def demo_host_def demo_host_info_def detect_gpus_try_def)

lemma demo_run:
  "main demo_loads ep tok (demo_env evs) =
     (let (r, a4) = recv_loop demo_loads evs None
                      \<lparr>endpoint = ep, token = tok, node_id = JNull, ws = True, running = True,
                       heartbeat_task = Active,
                       trace = [Logged (LogConnecting ep), Logged LogConnected,
                                Sent (register_message tok demo_host_info),
                                Logged (LogRegistrationSent demo_host_info)]\<rparr>
      in case r of
           Inr u \<Rightarrow> (0, a4\<lparr>running := False, heartbeat_task := cancel (heartbeat_task a4)\<rparr>)
         | Inl x \<Rightarrow>
             if x = ConnectionClosed
             then (0, (emit (Logged LogConnectionClosed) a4)
                        \<lparr>running := False, heartbeat_task := cancel (heartbeat_task a4)\<rparr>)
             else if x = Interrupt
             then (0, emit (Logged LogShutdown)
                        (a4\<lparr>running := False, heartbeat_task := cancel (heartbeat_task a4)\<rparr>))
             else (1, emit (Logged (LogFatal x)) (emit (Logged (LogConnectionError x))
                        (a4\<lparr>running := False, heartbeat_task := cancel (heartbeat_task a4)\<rparr>))))"
  by (simp add: main_def connect_def connect_try_def register_def get_host_info_Inr
      demo_host_info demo_env_def ws_send_def init_def emit_def is_Exception_def Let_def
      split: prod.splits sum.splits)

lemma asyncio_sleep_shape:
  "\<exists>xs. trace (asyncio_sleep n ts a) = trace a @ Slept n # xs"
  using heartbeats_trace [of "emit (Slept n) a" ts] by (auto simp: asyncio_sleep_def)

lemma is_job_result_shape:
  "is_job_result m \<Longrightarrow>
   keys m = [''type'', ''jobId'', ''nodeId'', ''status'', ''result'']
   \<and> field m ''status'' = JStr ''completed''
   \<and> field m ''result'' = JStr ''Job completed successfully''"
proof -
  assume "is_job_result m"
  then have m: "m = job_result_message (field m ''jobId'') (field m ''nodeId'')"
    by (simp add: is_job_result_def)
  have "keys (job_result_message (field m ''jobId'') (field m ''nodeId''))
      = [''type'', ''jobId'', ''nodeId'', ''status'', ''result'']"
    by (simp add: keys_def job_result_message_def)
  with m show ?thesis
    by (metis field_job_result(4) field_job_result(5))
qed

lemma handshake_no_results [simp]: "of_type ''jobResult'' (sends (handshake e tok)) = []"
  by (simp add: handshake_def of_type_def)



lemma handshake_quiet [simp]:
  "result_ids (handshake e tok) = []"
  by (simp add: result_ids_def)

lemma sends_subset_attempts: "set (sends xs) \<subseteq> set (attempts xs)"
  by (induction xs rule: attempts.induct) auto

lemma of_type_sends_empty: "of_type ty (attempts xs) = [] \<Longrightarrow> of_type ty (sends xs) = []"
  using sends_subset_attempts [of xs] by (auto simp: of_type_def filter_empty_conv)

lemma of_type_Cons [simp]:
  "of_type ty (m # ms) = (if field m ''type'' = JStr ty then m # of_type ty ms else of_type ty ms)"
  by (simp add: of_type_def)

section \<open>The claims\<close>

text \<open>
  C1 (as the code has it). An \<open>error\<close> message is only printed: the handler returns
  normally, sends nothing and leaves every attribute of the agent as it was. What it
  prints is the server's message, or the handler's own warning when stdout cannot encode
  that message. The receive loop goes on with the events that follow: the agent does not
  terminate and does not stop sending.
\<close>

theorem server_error_only_logged:
  "loads m = Some (JObj d) \<Longrightarrow> dict_get d ''type'' = JStr ''error'' \<Longrightarrow>
   handle_message loads h m a
     = (Inr (), emit (Logged (if print_ok h
                              then LogServerError (dict_get_default d ''message'' (JStr ''Unknown error''))
                              else LogHandlerError UnicodeEncodeError)) a)
   \<and> recv_loop loads (Inbound m h # evs) fin a
     = recv_loop loads evs fin
         (emit (Logged (if print_ok h
                        then LogServerError (dict_get_default d ''message'' (JStr ''Unknown error''))
                        else LogHandlerError UnicodeEncodeError)) a)"
  by (simp add: handle_message_server_error)

theorem server_error_only_logged_witness:
  "handle_message demo_loads quiet msg_error
       (send_heartbeat demo_tick (started ''ws://localhost:3003'' ''bad-token'' demo_host))
     = (Inr (), emit (Logged (LogServerError (JStr ''Invalid token'')))
                  (send_heartbeat demo_tick (started ''ws://localhost:3003'' ''bad-token'' demo_host)))"
  using server_error_only_logged [of demo_loads msg_error
      "[(''type'', JStr ''error''), (''message'', JStr ''Invalid token'')]"
      quiet "send_heartbeat demo_tick (started ''ws://localhost:3003'' ''bad-token'' demo_host)"]
  by (simp add: dict_get_def dict_get_default_def quiet_def)

text \<open>
  C1 as stated fails: the server answers the registration with an \<open>error\<close> and then
  sends a job, and the heartbeat task takes its first turn while the job handler sleeps.
  The agent prints the error, goes on to the job, sends a heartbeat and the job's
  \<open>jobResult\<close> after the error, and when the server closes the connection the process
  ends with exit status 0.
\<close>

theorem error_is_fatal_counterexample:
  "fst (main demo_loads ''ws://localhost:3003'' ''bad-token''
          (demo_env [Inbound msg_error quiet, Inbound msg_job (quiet\<lparr>ticks := [demo_tick]\<rparr>)])) = 0
   \<and> trace (snd (main demo_loads ''ws://localhost:3003'' ''bad-token''
          (demo_env [Inbound msg_error quiet, Inbound msg_job (quiet\<lparr>ticks := [demo_tick]\<rparr>)])))
     = [Logged (LogConnecting ''ws://localhost:3003''), Logged LogConnected,
        Sent (register_message ''bad-token'' demo_host_info),
        Logged (LogRegistrationSent demo_host_info),
        Logged (LogServerError (JStr ''Invalid token'')),
        Logged (LogJobReceived (JStr ''job-1'')), Slept 2,
        Sent (heartbeat_message JNull ''2025-01-01T00:00:00''), Slept 10,
        Sent (job_result_message (JStr ''job-1'') JNull),
        Logged (LogJobCompleted (JStr ''job-1''))]"
  by (simp add: demo_run handle_message_def handle_message_try_def dict_get_def
      dict_get_default_def quiet_def ws_send_def asyncio_sleep_def emit_def Let_def
      send_heartbeat_def demo_tick_def)




text \<open>
  C3 (as the code has it). The handler runs no script and has no deadline. For every job
  assignment whose job id stdout can print, whatever its script and \<open>timeoutSeconds\<close>,
  it sleeps 2 seconds and then reports the status \<open>completed\<close>: on an open connection,
  when the send succeeds and the handler is not cancelled, exactly one \<open>jobResult\<close>
  goes out, carrying the job id of the assignment, the current node id and the status
  \<open>completed\<close>. When stdout cannot encode the job id, the print that precedes the sleep
  raises; the handler logs that error and neither sleeps nor sends.
\<close>

theorem job_always_completed:
  assumes "loads m = Some (JObj d)" "dict_get d ''type'' = JStr ''job''"
  shows "(print_ok h \<and> ws a \<and> send_ok h \<and> \<not> cancelled h \<longrightarrow>
            of_type ''jobResult'' (sends (trace (snd (handle_message loads h m a))))
              = of_type ''jobResult'' (sends (trace a))
                @ [job_result_message (dict_get d ''jobId'') (node_id a)]
            \<and> field (job_result_message (dict_get d ''jobId'') (node_id a)) ''status''
                = JStr ''completed''
            \<and> (\<exists>xs. trace (snd (handle_message loads h m a))
                     = trace a @ Logged (LogJobReceived (dict_get d ''jobId'')) # Slept 2 # xs))
         \<and> (\<not> print_ok h \<longrightarrow>
              handle_message loads h m a
                = (Inr (), emit (Logged (LogHandlerError UnicodeEncodeError)) a))"
proof (intro conjI impI)
  assume ok: "print_ok h \<and> ws a \<and> send_ok h \<and> \<not> cancelled h"
  from handle_message_trace [of loads h m a] obtain xs where
    xs: "trace (snd (handle_message loads h m a)) = trace a @ xs"
      "of_type ''jobResult'' (sends xs) = delivered loads h m a"
    by blast
  have "delivered loads h m a = [job_result_message (dict_get d ''jobId'') (node_id a)]"
    using assms ok by (simp add: delivered_def msg_type_of_def msg_field_def field_def)
  with xs show "of_type ''jobResult'' (sends (trace (snd (handle_message loads h m a))))
           = of_type ''jobResult'' (sends (trace a))
             @ [job_result_message (dict_get d ''jobId'') (node_id a)]"
    by simp
  show "field (job_result_message (dict_get d ''jobId'') (node_id a)) ''status'' = JStr ''completed''"
    by simp
  from asyncio_sleep_shape [of 2 "ticks h" "emit (Logged (LogJobReceived (dict_get d ''jobId''))) a"]
  obtain ys where ys: "trace (asyncio_sleep 2 (ticks h) (emit (Logged (LogJobReceived (dict_get d ''jobId''))) a))
      = trace a @ Logged (LogJobReceived (dict_get d ''jobId'')) # Slept 2 # ys"
    by auto
  show "\<exists>xs. trace (snd (handle_message loads h m a))
                  = trace a @ Logged (LogJobReceived (dict_get d ''jobId'')) # Slept 2 # xs"
    using assms ok ys by (simp add: handle_message_job Let_def)
next
  assume "\<not> print_ok h"
  then show "handle_message loads h m a
      = (Inr (), emit (Logged (LogHandlerError UnicodeEncodeError)) a)"
    using assms by (simp add: handle_message_job)
qed

theorem job_always_completed_witness:
  "of_type ''jobResult'' (sends (trace (snd (handle_message demo_loads (quiet\<lparr>ticks := [demo_tick]\<rparr>) msg_job
       (started ''ws://localhost:3003'' ''tok'' demo_host)))))
     = [job_result_message (JStr ''job-1'') JNull]
   \<and> field (job_result_message (JStr ''job-1'') JNull) ''status'' = JStr ''completed''
   \<and> handle_message demo_loads (quiet\<lparr>print_ok := False\<rparr>) msg_job
       (started ''ws://localhost:3003'' ''tok'' demo_host)
     = (Inr (), emit (Logged (LogHandlerError UnicodeEncodeError))
                  (started ''ws://localhost:3003'' ''tok'' demo_host))"
proof -
  let ?a = "started ''ws://localhost:3003'' ''tok'' demo_host"
  let ?h = "quiet\<lparr>ticks := [demo_tick]\<rparr>"
  let ?d = "[(''type'', JStr ''job''), (''jobId'', JStr ''job-1''),
          (''script'', JStr ''while True: pass''), (''timeoutSeconds'', JNum 5)]"
  have d: "demo_loads msg_job = Some (JObj ?d)" "dict_get ?d ''type'' = JStr ''job''"
    by (simp_all add: dict_get_def dict_get_default_def)
  have "of_type ''jobResult'' (sends (trace ?a)) = []"
    by (simp add: started_def)
  moreover have "print_ok ?h \<and> ws ?a \<and> send_ok ?h \<and> \<not> cancelled ?h"
    by (simp add: started_def quiet_def)
  moreover have "\<not> print_ok (quiet\<lparr>print_ok := False\<rparr>)"
    by simp
  ultimately show ?thesis
    using d job_always_completed [of demo_loads msg_job ?d ?h ?a]
      job_always_completed [of demo_loads msg_job ?d "quiet\<lparr>print_ok := False\<rparr>" ?a]
    by (simp add: dict_get_def dict_get_default_def started_def)
qed

text \<open>
  C3 as stated fails: a job whose script is an endless loop, with \<open>timeoutSeconds = 5\<close>,
  is slept over for 2 seconds and reported with status \<open>completed\<close>, not \<open>TimedOut\<close>.
\<close>

theorem timed_out_counterexample:
  "msg_field demo_loads msg_job ''script'' = JStr ''while True: pass''
   \<and> msg_field demo_loads msg_job ''timeoutSeconds'' = JNum 5
   \<and> trace (snd (handle_message demo_loads quiet msg_job
       (started ''ws://localhost:3003'' ''tok'' demo_host)))
     = trace (started ''ws://localhost:3003'' ''tok'' demo_host)
       @ [Logged (LogJobReceived (JStr ''job-1'')), Slept 2,
          Sent (JObj [(''type'', JStr ''jobResult''), (''jobId'', JStr ''job-1''),
                      (''nodeId'', JNull), (''status'', JStr ''completed''),
                      (''result'', JStr ''Job completed successfully'')]),
          Logged (LogJobCompleted (JStr ''job-1''))]
   \<and> JStr ''completed'' \<noteq> JStr ''TimedOut''"
  by (simp add: msg_field_def field_def handle_message_def handle_message_try_def dict_get_def
      dict_get_default_def quiet_def ws_send_def asyncio_sleep_def started_def
      job_result_message_def Let_def)

text \<open>
  C4 (as the code has it). Every \<open>jobResult\<close> frame the agent sends has exactly the
  keys \<open>type\<close>, \<open>jobId\<close>, \<open>nodeId\<close>, \<open>status\<close> and \<open>result\<close>; its status is
  \<open>completed\<close> and its \<open>result\<close> is the fixed string \<open>Job completed successfully\<close>,
  not an object: there are no logs, exit code or hashes in it.
\<close>

theorem job_result_fields:
  "\<forall>m \<in> set (of_type ''jobResult'' (sends (trace (snd (main loads ep tok e))))).
      keys m = [''type'', ''jobId'', ''nodeId'', ''status'', ''result'']
      \<and> field m ''status'' = JStr ''completed''
      \<and> field m ''result'' = JStr ''Job completed successfully''"
proof -
  from main_trace [of loads ep tok e] obtain xs tail where
    tr: "trace (snd (main loads ep tok e)) = Logged (LogConnecting ep) # handshake e tok @ xs @ tail"
      and xs: "\<forall>x \<in> set xs. loop_obs x" and tail: "\<forall>x \<in> set tail. closing_obs x"
    by blast
  from closing_obs_quiet [OF tail] have "sends tail = []"
    by simp
  then have "of_type ''jobResult'' (sends (trace (snd (main loads ep tok e))))
      = of_type ''jobResult'' (sends xs)"
    by (simp add: tr)
  moreover from loop_obs_quiet [OF xs]
  have "\<forall>m \<in> set (of_type ''jobResult'' (sends xs)). is_job_result m"
    by simp
  ultimately show ?thesis
    by (auto dest: is_job_result_shape)
qed

theorem job_result_fields_witness:
  "of_type ''jobResult'' (sends (trace (snd (main demo_loads ''ws://localhost:3003'' ''tok''
       (demo_env [Inbound msg_registered quiet, Inbound msg_job quiet])))))
     = [JObj [(''type'', JStr ''jobResult''), (''jobId'', JStr ''job-1''),
              (''nodeId'', JStr ''node-1''), (''status'', JStr ''completed''),
              (''result'', JStr ''Job completed successfully'')]]
   \<and> keys (JObj [(''type'', JStr ''jobResult''), (''jobId'', JStr ''job-1''),
              (''nodeId'', JStr ''node-1''), (''status'', JStr ''completed''),
              (''result'', JStr ''Job completed successfully'')])
     = [''type'', ''jobId'', ''nodeId'', ''status'', ''result'']"
proof -
  let ?e = "demo_env [Inbound msg_registered quiet, Inbound msg_job quiet]"
  let ?m = "JObj [(''type'', JStr ''jobResult''), (''jobId'', JStr ''job-1''),
              (''nodeId'', JStr ''node-1''), (''status'', JStr ''completed''),
              (''result'', JStr ''Job completed successfully'')]"
  have ev: "of_type ''jobResult'' (sends (trace (snd (main demo_loads ''ws://localhost:3003'' ''tok'' ?e))))
      = [?m]"
    by (simp add: demo_run handle_message_def handle_message_try_def dict_get_def
      dict_get_default_def quiet_def ws_send_def asyncio_sleep_def emit_def Let_def
      of_type_def field_def job_result_message_def register_message_def)
  from job_result_fields [of demo_loads "''ws://localhost:3003''" "''tok''" ?e] ev
  have "keys ?m = [''type'', ''jobId'', ''nodeId'', ''status'', ''result'']"
    by simp
  with ev show ?thesis
    by simp
qed

text \<open>
  C4 as stated fails: the \<open>result\<close> of the \<open>jobResult\<close> sent for a job is a string, so
  it is not an object and holds no \<open>logs\<close>, \<open>exitCode\<close>, \<open>executionHash\<close> or
  \<open>logsHash\<close>.
\<close>

theorem structured_result_counterexample:
  "sends (trace (snd (handle_message demo_loads quiet msg_job
       (started ''ws://localhost:3003'' ''tok'' demo_host))))
     = [register_message ''tok'' (host_info demo_host),
        JObj [(''type'', JStr ''jobResult''), (''jobId'', JStr ''job-1''),
              (''nodeId'', JNull), (''status'', JStr ''completed''),
              (''result'', JStr ''Job completed successfully'')]]
   \<and> field (JObj [(''type'', JStr ''jobResult''), (''jobId'', JStr ''job-1''),
              (''nodeId'', JNull), (''status'', JStr ''completed''),
              (''result'', JStr ''Job completed successfully'')]) ''result''
     = JStr ''Job completed successfully''
   \<and> keys (JStr ''Job completed successfully'') = []
   \<and> field (JStr ''Job completed successfully'') ''logsHash'' = JNull"
  by (simp add: handle_message_def handle_message_try_def dict_get_def
      dict_get_default_def quiet_def ws_send_def asyncio_sleep_def started_def
      job_result_message_def Let_def field_def keys_def)







text \<open>
  C7 (as the code has it). The node id is not set once: every \<open>registered\<close> message
  overwrites it with that message's \<open>nodeId\<close> (with \<open>None\<close> when the field is absent).
  What holds is that nothing else changes it: a message of any other type, an undecodable
  message and a heartbeat turn leave the node id as it was.
\<close>

theorem node_id_set_by_registered_only:
  "(msg_type_of loads m = Some (JStr ''registered'')
      \<longrightarrow> node_id (snd (handle_message loads h m a)) = msg_field loads m ''nodeId'')
   \<and> (msg_type_of loads m \<noteq> Some (JStr ''registered'')
      \<longrightarrow> node_id (snd (handle_message loads h m a)) = node_id a)
   \<and> node_id (send_heartbeat t a) = node_id a"
  by (simp add: handle_message_node_id)

theorem node_id_set_by_registered_only_witness:
  "node_id (snd (handle_message demo_loads quiet msg_registered (started ''ws://localhost:3003'' ''tok'' demo_host)))
     = JStr ''node-1''
   \<and> node_id (snd (handle_message demo_loads quiet msg_job
        ((started ''ws://localhost:3003'' ''tok'' demo_host)\<lparr>node_id := JStr ''node-1''\<rparr>)))
     = JStr ''node-1''"
proof -
  let ?a = "started ''ws://localhost:3003'' ''tok'' demo_host"
  have 1: "node_id (snd (handle_message demo_loads quiet msg_registered ?a)) = JStr ''node-1''"
    using node_id_set_by_registered_only [of demo_loads msg_registered quiet ?a]
    by (simp add: msg_type_of_def msg_field_def field_def dict_get_def dict_get_default_def)
  have 2: "node_id (snd (handle_message demo_loads quiet msg_job (?a\<lparr>node_id := JStr ''node-1''\<rparr>)))
      = JStr ''node-1''"
    using node_id_set_by_registered_only [of demo_loads msg_job quiet "?a\<lparr>node_id := JStr ''node-1''\<rparr>"]
    by (simp add: msg_type_of_def dict_get_def dict_get_default_def)
  from 1 2 show ?thesis
    by simp
qed

text \<open>
  C7 as stated fails: after a first \<open>registered\<close> message has set the node id to
  \<open>node-1\<close>, a second one changes it to \<open>node-2\<close>.
\<close>

theorem node_id_set_once_counterexample:
  "node_id (snd (recv_loop demo_loads [Inbound msg_registered quiet] None
       (started ''ws://localhost:3003'' ''tok'' demo_host))) = JStr ''node-1''
   \<and> node_id (snd (recv_loop demo_loads [Inbound msg_registered quiet, Inbound msg_registered_again quiet] None
       (started ''ws://localhost:3003'' ''tok'' demo_host))) = JStr ''node-2''"
  by (simp add: handle_message_registered [where d = "[(''type'', JStr ''registered''), (''nodeId'', JStr ''node-1'')]"]
      handle_message_registered [where d = "[(''type'', JStr ''registered''), (''nodeId'', JStr ''node-2'')]"]
      dict_get_def dict_get_default_def)

text \<open>
  C8. Whenever the connection is opened, the first frame the agent hands to the socket
  is a registration request, and no other frame of the run is one: exactly one
  \<open>register\<close> frame is sent per connection (and it goes out when that send succeeds).
  The frame has the type tag \<open>register\<close>, the token given on the command line and a
  \<open>hostInfo\<close> object with \<open>hostname\<close>, \<open>os\<close>, \<open>os_version\<close>, \<open>arch\<close> and the list
  \<open>gpus\<close> that \<open>detect_gpus\<close> returned. When the connection cannot be opened, nothing
  is sent.
\<close>

theorem registration_sent_once:
  "\<exists>gpus. detect_gpus (nvidia_smi (host_facts e)) = Inr gpus
     \<and> (connect_result e = None \<longrightarrow>
          of_type ''register'' (attempts (trace (snd (main loads ep tok e))))
            = [JObj [(''type'', JStr ''register''), (''token'', JStr tok),
                     (''hostInfo'',
                      JObj [(''hostname'', JStr (hostname (host_facts e))),
                            (''os'', JStr (os (host_facts e))),
                            (''os_version'', JStr (os_version (host_facts e))),
                            (''arch'', JStr (arch (host_facts e))),
                            (''gpus'', JArr gpus)])]]
          \<and> take 1 (attempts (trace (snd (main loads ep tok e))))
               = of_type ''register'' (attempts (trace (snd (main loads ep tok e)))))
     \<and> (connect_result e = None \<and> register_send_ok e \<longrightarrow>
          of_type ''register'' (sends (trace (snd (main loads ep tok e))))
            = of_type ''register'' (attempts (trace (snd (main loads ep tok e)))))
     \<and> (connect_result e \<noteq> None \<longrightarrow> attempts (trace (snd (main loads ep tok e))) = [])"
proof -
  let ?reg = "register_message tok (host_info (host_facts e))"
  from main_trace [of loads ep tok e] obtain xs tail where
    tr: "trace (snd (main loads ep tok e)) = Logged (LogConnecting ep) # handshake e tok @ xs @ tail"
      and xs: "\<forall>x \<in> set xs. loop_obs x" and tail: "\<forall>x \<in> set tail. closing_obs x"
    by blast
  from loop_obs_quiet [OF xs] have xa: "of_type ''register'' (attempts xs) = []"
    by simp
  then have xsn: "of_type ''register'' (sends xs) = []"
    by (rule of_type_sends_empty)
  from closing_obs_quiet [OF tail] have ta: "attempts tail = []" "sends tail = []"
    by simp_all
  have att: "attempts (trace (snd (main loads ep tok e))) = attempts (handshake e tok) @ attempts xs"
    by (simp add: tr ta)
  have snt: "sends (trace (snd (main loads ep tok e))) = sends (handshake e tok) @ sends xs"
    by (simp add: tr ta)
  have h1: "connect_result e = None \<Longrightarrow> attempts (handshake e tok) = [?reg]"
    by (simp add: handshake_def)
  have h2: "connect_result e = None \<Longrightarrow> register_send_ok e \<Longrightarrow> sends (handshake e tok) = [?reg]"
    by (simp add: handshake_def)
  have h3: "connect_result e \<noteq> None \<Longrightarrow> handshake e tok = []"
    by (simp add: handshake_def)
  have r: "of_type ''register'' [?reg] = [?reg]"
    by (simp add: of_type_def)
  have shape: "?reg = JObj [(''type'', JStr ''register''), (''token'', JStr tok),
                     (''hostInfo'',
                      JObj [(''hostname'', JStr (hostname (host_facts e))),
                            (''os'', JStr (os (host_facts e))),
                            (''os_version'', JStr (os_version (host_facts e))),
                            (''arch'', JStr (arch (host_facts e))),
                            (''gpus'', JArr (snd (detect_gpus_try (nvidia_smi (host_facts e)) [])))])]"
    by (simp add: register_message_def host_info_def)
  have a1: "connect_result e = None \<Longrightarrow>
      of_type ''register'' (attempts (trace (snd (main loads ep tok e)))) = [?reg]"
    using h1 xa r by (simp add: att)
  have a2: "connect_result e = None \<Longrightarrow>
      take 1 (attempts (trace (snd (main loads ep tok e)))) = [?reg]"
    using h1 by (simp add: att)
  have a3: "connect_result e = None \<Longrightarrow> register_send_ok e \<Longrightarrow>
      of_type ''register'' (sends (trace (snd (main loads ep tok e)))) = [?reg]"
    using h2 xsn r by (simp add: snt)
  have a4: "connect_result e \<noteq> None \<Longrightarrow> attempts (trace (snd (main loads ep tok e))) = []"
  proof -
    assume c: "connect_result e \<noteq> None"
    then obtain x where "connect_result e = Some x"
      by auto
    then show ?thesis
      by (simp add: main_refused init_def)
  qed
  show ?thesis
  proof (intro exI conjI impI)
    show "detect_gpus (nvidia_smi (host_facts e)) = Inr (snd (detect_gpus_try (nvidia_smi (host_facts e)) []))"
      by (rule detect_gpus_Inr)
  qed (use a1 a2 a3 a4 shape in simp_all)
qed

theorem registration_sent_once_witness:
  "of_type ''register'' (attempts (trace (snd (main demo_loads ''ws://localhost:3003'' ''tok''
        ((demo_env [HbTick demo_tick, Inbound msg_registered quiet, Inbound msg_job quiet])
           \<lparr>host_facts := demo_host\<lparr>nvidia_smi := demo_smi\<rparr>\<rparr>)))))
     = [JObj [(''type'', JStr ''register''), (''token'', JStr ''tok''),
              (''hostInfo'',
               JObj [(''hostname'', JStr ''gpu-box''), (''os'', JStr ''Linux''),
                     (''os_version'', JStr ''6.1.0''), (''arch'', JStr ''x86_64''),
                     (''gpus'',
                      JArr [JObj [(''model'', JStr ''NVIDIA A100''), (''vram'', JStr ''40960 MiB'')],
                            JObj [(''model'', JStr ''Tesla T4''), (''vram'', JStr ''15360 MiB'')]])])]]
   \<and> length (attempts (trace (snd (main demo_loads ''ws://localhost:3003'' ''tok''
        ((demo_env [HbTick demo_tick, Inbound msg_registered quiet, Inbound msg_job quiet])
           \<lparr>host_facts := demo_host\<lparr>nvidia_smi := demo_smi\<rparr>\<rparr>))))) = 3"
proof -
  let ?e = "(demo_env [HbTick demo_tick, Inbound msg_registered quiet, Inbound msg_job quiet])
           \<lparr>host_facts := demo_host\<lparr>nvidia_smi := demo_smi\<rparr>\<rparr>"
  have g: "detect_gpus demo_smi =
     Inr [JObj [(''model'', JStr ''NVIDIA A100''), (''vram'', JStr ''40960 MiB'')],
          JObj [(''model'', JStr ''Tesla T4''), (''vram'', JStr ''15360 MiB'')]]"
    by (simp add: demo_smi_def detect_gpus_def detect_gpus_try_def gpu_entry_def
        str_strip_def isspace_def)
  have c: "connect_result ?e = None" "nvidia_smi (host_facts ?e) = demo_smi"
    "hostname (host_facts ?e) = ''gpu-box''" "os (host_facts ?e) = ''Linux''"
    "os_version (host_facts ?e) = ''6.1.0''" "arch (host_facts ?e) = ''x86_64''"
    by (simp_all add: demo_env_def demo_host_def)
  have n: "length (attempts (trace (snd (main demo_loads ''ws://localhost:3003'' ''tok'' ?e)))) = 3"
    by (simp add: main_def connect_def connect_try_def register_def get_host_info_Inr
      demo_env_def ws_send_def init_def emit_def is_Exception_def Let_def
      handle_message_def handle_message_try_def dict_get_def dict_get_default_def quiet_def
      asyncio_sleep_def send_heartbeat_def demo_tick_def cancel_def)
  from registration_sent_once [of ?e demo_loads "''ws://localhost:3003''" "''tok''"] g n
  show ?thesis
    unfolding c by auto
qed

text \<open>
  C9 (as the code has it). Whatever the inbound string, the message handler lets no
  \<open>Exception\<close> escape: a string that is not JSON, a JSON value that is not an object, a
  print that stdout cannot encode and a failed send are caught and logged, and the
  handler returns normally; a message with no \<open>type\<close> or an unknown \<open>type\<close> changes
  nothing at all. After a normal return the receive loop goes on with the next event.
  One thing does leave the handler, since \<open>except Exception\<close> does not catch it: the
  cancellation of the task while a job handler sleeps. It happens exactly when the
  message is a job, its job id has been printed and the task is cancelled in the sleep;
  the receive loop then ends with it and later events are not handled.
\<close>

theorem handle_message_catches_exceptions:
  "fst (handle_message loads h m a)
     = (if msg_type_of loads m = Some (JStr ''job'') \<and> print_ok h \<and> cancelled h
        then Inl Interrupt else Inr ())
   \<and> (fst (handle_message loads h m a) = Inr () \<longrightarrow>
        recv_loop loads (Inbound m h # evs) fin a
          = recv_loop loads evs fin (snd (handle_message loads h m a)))
   \<and> (fst (handle_message loads h m a) \<noteq> Inr () \<longrightarrow>
        recv_loop loads (Inbound m h # evs) fin a = handle_message loads h m a)
   \<and> (\<forall>x. fst (handle_message_try loads h m a) = Inl x \<and> is_Exception x \<longrightarrow>
          handle_message loads h m a
            = (Inr (), emit (Logged (LogHandlerError x)) (snd (handle_message_try loads h m a))))
   \<and> (loads m = None \<longrightarrow>
          handle_message loads h m a = (Inr (), emit (Logged (LogHandlerError JSONDecodeError)) a))
   \<and> (\<forall>v. loads m = Some v \<and> (\<forall>d. v \<noteq> JObj d) \<longrightarrow>
          handle_message loads h m a = (Inr (), emit (Logged (LogHandlerError AttributeError)) a))
   \<and> (\<forall>d. loads m = Some (JObj d) \<and> dict_get d ''type'' \<noteq> JStr ''registered''
            \<and> dict_get d ''type'' \<noteq> JStr ''job'' \<and> dict_get d ''type'' \<noteq> JStr ''error'' \<longrightarrow>
          handle_message loads h m a = (Inr (), a))"
proof (intro conjI allI impI)
  show "fst (handle_message loads h m a)
     = (if msg_type_of loads m = Some (JStr ''job'') \<and> print_ok h \<and> cancelled h
        then Inl Interrupt else Inr ())"
    by (rule handle_message_returns)
next
  assume "fst (handle_message loads h m a) = Inr ()"
  then show "recv_loop loads (Inbound m h # evs) fin a
      = recv_loop loads evs fin (snd (handle_message loads h m a))"
    by (cases "handle_message loads h m a") simp
next
  assume "fst (handle_message loads h m a) \<noteq> Inr ()"
  then show "recv_loop loads (Inbound m h # evs) fin a = handle_message loads h m a"
    by (cases "handle_message loads h m a") (auto split: sum.splits)
next
  fix x
  assume "fst (handle_message_try loads h m a) = Inl x \<and> is_Exception x"
  then show "handle_message loads h m a
      = (Inr (), emit (Logged (LogHandlerError x)) (snd (handle_message_try loads h m a)))"
    by (cases "handle_message_try loads h m a") (simp add: handle_message_def)
next
  assume "loads m = None"
  then show "handle_message loads h m a = (Inr (), emit (Logged (LogHandlerError JSONDecodeError)) a)"
    by (rule handle_message_undecodable)
next
  fix v
  assume "loads m = Some v \<and> (\<forall>d. v \<noteq> JObj d)"
  then show "handle_message loads h m a = (Inr (), emit (Logged (LogHandlerError AttributeError)) a)"
    by (simp add: handle_message_not_dict)
next
  fix d
  assume "loads m = Some (JObj d) \<and> dict_get d ''type'' \<noteq> JStr ''registered''
            \<and> dict_get d ''type'' \<noteq> JStr ''job'' \<and> dict_get d ''type'' \<noteq> JStr ''error''"
  then show "handle_message loads h m a = (Inr (), a)"
    by (simp add: handle_message_other)
qed

theorem handle_message_catches_exceptions_witness:
  "handle_message demo_loads quiet msg_malformed
       (send_heartbeat demo_tick (started ''ws://localhost:3003'' ''tok'' demo_host))
     = (Inr (), emit (Logged (LogHandlerError JSONDecodeError))
                  (send_heartbeat demo_tick (started ''ws://localhost:3003'' ''tok'' demo_host)))
   \<and> handle_message demo_loads quiet msg_unknown
       (send_heartbeat demo_tick (started ''ws://localhost:3003'' ''tok'' demo_host))
     = (Inr (), send_heartbeat demo_tick (started ''ws://localhost:3003'' ''tok'' demo_host))
   \<and> fst (handle_message demo_loads (quiet\<lparr>send_ok := False\<rparr>) msg_job
       (send_heartbeat demo_tick (started ''ws://localhost:3003'' ''tok'' demo_host)))
     = Inr ()
   \<and> fst (handle_message_try demo_loads (quiet\<lparr>send_ok := False\<rparr>) msg_job
       (send_heartbeat demo_tick (started ''ws://localhost:3003'' ''tok'' demo_host)))
     = Inl ConnectionClosed
   \<and> recv_loop demo_loads [Inbound msg_malformed quiet, Inbound msg_registered quiet] None
       (send_heartbeat demo_tick (started ''ws://localhost:3003'' ''tok'' demo_host))
     = recv_loop demo_loads [Inbound msg_registered quiet] None
         (emit (Logged (LogHandlerError JSONDecodeError))
            (send_heartbeat demo_tick (started ''ws://localhost:3003'' ''tok'' demo_host)))"
proof -
  let ?a = "send_heartbeat demo_tick (started ''ws://localhost:3003'' ''tok'' demo_host)"
  have w: "ws ?a"
    by (simp add: started_def)
  have 1: "handle_message demo_loads quiet msg_malformed ?a
      = (Inr (), emit (Logged (LogHandlerError JSONDecodeError)) ?a)"
    using handle_message_catches_exceptions [of demo_loads quiet msg_malformed ?a] by simp
  have 2: "handle_message demo_loads quiet msg_unknown ?a = (Inr (), ?a)"
    using handle_message_catches_exceptions [of demo_loads quiet msg_unknown ?a]
    by (simp add: dict_get_def dict_get_default_def)
  have c: "\<not> cancelled (quiet\<lparr>send_ok := False\<rparr>)"
    by (simp add: quiet_def)
  have 3: "fst (handle_message demo_loads (quiet\<lparr>send_ok := False\<rparr>) msg_job ?a) = Inr ()"
    using handle_message_catches_exceptions [of demo_loads "quiet\<lparr>send_ok := False\<rparr>" msg_job ?a] c
    by simp
  have 4: "fst (handle_message_try demo_loads (quiet\<lparr>send_ok := False\<rparr>) msg_job ?a) = Inl ConnectionClosed"
    using w by (simp add: handle_message_try_def dict_get_def dict_get_default_def quiet_def
        ws_send_def asyncio_sleep_def Let_def)
  have 5: "recv_loop demo_loads [Inbound msg_malformed quiet, Inbound msg_registered quiet] None ?a
     = recv_loop demo_loads [Inbound msg_registered quiet] None
         (emit (Logged (LogHandlerError JSONDecodeError)) ?a)"
    using handle_message_catches_exceptions [of demo_loads quiet msg_malformed ?a
        "[Inbound msg_registered quiet]" None] 1
    by simp
  from 1 2 3 4 5 show ?thesis
    by simp
qed

text \<open>
  C9 as stated fails: the user interrupts the agent while the handler of a job sleeps.
  The cancellation is not an \<open>Exception\<close>, so the handler's \<open>except\<close> does not catch it:
  it leaves the handler, the message that follows is never handled, and the process
  shuts down.
\<close>

theorem handler_propagates_counterexample:
  "handle_message demo_loads (quiet\<lparr>ticks := [demo_tick], cancelled := True\<rparr>) msg_job
       (started ''ws://localhost:3003'' ''tok'' demo_host)
     = (Inl Interrupt,
        \<lparr>endpoint = ''ws://localhost:3003'', token = ''tok'', node_id = JNull, ws = True,
         running = True, heartbeat_task = Active,
         trace = [Logged (LogConnecting ''ws://localhost:3003''), Logged LogConnected,
                  Sent (register_message ''tok'' demo_host_info),
                  Logged (LogRegistrationSent demo_host_info),
                  Logged (LogJobReceived (JStr ''job-1'')), Slept 2,
                  Sent (heartbeat_message JNull ''2025-01-01T00:00:00''), Slept 10]\<rparr>)
   \<and> recv_loop demo_loads
        [Inbound msg_job (quiet\<lparr>ticks := [demo_tick], cancelled := True\<rparr>),
         Inbound msg_registered quiet] None
        (started ''ws://localhost:3003'' ''tok'' demo_host)
     = handle_message demo_loads (quiet\<lparr>ticks := [demo_tick], cancelled := True\<rparr>) msg_job
         (started ''ws://localhost:3003'' ''tok'' demo_host)
   \<and> fst (main demo_loads ''ws://localhost:3003'' ''tok''
        (demo_env [Inbound msg_job (quiet\<lparr>ticks := [demo_tick], cancelled := True\<rparr>),
                   Inbound msg_registered quiet])) = 0"
proof -
  let ?h = "quiet\<lparr>ticks := [demo_tick], cancelled := True\<rparr>"
  let ?a = "started ''ws://localhost:3003'' ''tok'' demo_host"
  have 1: "handle_message demo_loads ?h msg_job ?a
     = (Inl Interrupt,
        \<lparr>endpoint = ''ws://localhost:3003'', token = ''tok'', node_id = JNull, ws = True,
         running = True, heartbeat_task = Active,
         trace = [Logged (LogConnecting ''ws://localhost:3003''), Logged LogConnected,
                  Sent (register_message ''tok'' demo_host_info),
                  Logged (LogRegistrationSent demo_host_info),
                  Logged (LogJobReceived (JStr ''job-1'')), Slept 2,
                  Sent (heartbeat_message JNull ''2025-01-01T00:00:00''), Slept 10]\<rparr>)"
    by (simp add: handle_message_def handle_message_try_def dict_get_def dict_get_default_def
        quiet_def ws_send_def asyncio_sleep_def started_def send_heartbeat_def demo_tick_def
        emit_def demo_host_info is_Exception_def Let_def)
  have 2: "recv_loop demo_loads [Inbound msg_job ?h, Inbound msg_registered quiet] None ?a
     = handle_message demo_loads ?h msg_job ?a"
    by (simp add: 1)
  have 3: "fst (main demo_loads ''ws://localhost:3003'' ''tok''
        (demo_env [Inbound msg_job ?h, Inbound msg_registered quiet])) = 0"
    using 1 by (simp add: demo_run demo_host_info [symmetric] started_def)
  from 1 2 3 show ?thesis
    by simp
qed

text \<open>
  C10. GPU detection is total: whatever \<open>subprocess.run\<close> does (raises because
  \<open>nvidia-smi\<close> is absent, times out or fails, or returns any exit code), \<open>detect_gpus\<close>
  returns a list and raises nothing. The list is empty unless the command returned exit
  code 0. Otherwise it has, in order, one entry for every non-empty line of the stripped
  output that has at least two comma-separated fields; every entry is an object with
  exactly the keys \<open>model\<close> and \<open>vram\<close>, holding the stripped first and second field of
  its line.
\<close>

theorem detect_gpus_total:
  "\<exists>gpus. detect_gpus run = Inr gpus
     \<and> (\<forall>e. run = Inl e \<longrightarrow> gpus = [])
     \<and> (\<forall>r. run = Inr r \<and> returncode r \<noteq> 0 \<longrightarrow> gpus = [])
     \<and> (\<forall>r. run = Inr r \<and> returncode r = 0 \<longrightarrow>
            gpus = map (\<lambda>l. gpu_entry (str_split (CHR '','') l))
                       (filter gpu_line (output_lines (stdout r))))
     \<and> (\<forall>g \<in> set gpus.
            keys g = [''model'', ''vram''] \<and>
            (\<exists>r line. run = Inr r \<and> line \<in> set (output_lines (stdout r)) \<and>
               line \<noteq> [] \<and> length (str_split (CHR '','') line) \<ge> 2 \<and>
               field g ''model'' = JStr (str_strip (str_split (CHR '','') line ! 0)) \<and>
               field g ''vram'' = JStr (str_strip (str_split (CHR '','') line ! 1))))"
proof (cases run)
  case (Inl e)
  then show ?thesis
    by (simp add: detect_gpus_def detect_gpus_try_def)
next
  case (Inr r)
  show ?thesis
  proof (cases "returncode r = 0")
    case False
    with Inr show ?thesis
      by (simp add: detect_gpus_def detect_gpus_try_def)
  next
    case True
    have eq: "detect_gpus run =
        Inr (map (\<lambda>l. gpu_entry (str_split (CHR '','') l)) (filter gpu_line (output_lines (stdout r))))"
      using Inr True
      by (simp add: detect_gpus_def detect_gpus_try_def scan_lines_filter output_lines_def)
    show ?thesis
      unfolding eq using Inr True
      by (auto simp: gpu_entry_def keys_def field_def dict_get_def dict_get_default_def gpu_line_def)
  qed
qed

theorem detect_gpus_total_witness:
  "detect_gpus demo_smi =
     Inr [JObj [(''model'', JStr ''NVIDIA A100''), (''vram'', JStr ''40960 MiB'')],
          JObj [(''model'', JStr ''Tesla T4''), (''vram'', JStr ''15360 MiB'')]]
   \<and> keys (JObj [(''model'', JStr ''NVIDIA A100''), (''vram'', JStr ''40960 MiB'')]) = [''model'', ''vram'']
   \<and> keys (JObj [(''model'', JStr ''Tesla T4''), (''vram'', JStr ''15360 MiB'')]) = [''model'', ''vram'']
   \<and> detect_gpus (Inl FileNotFoundError) = Inr []"
proof -
  let ?gs = "[JObj [(''model'', JStr ''NVIDIA A100''), (''vram'', JStr ''40960 MiB'')],
              JObj [(''model'', JStr ''Tesla T4''), (''vram'', JStr ''15360 MiB'')]]"
  have ev: "detect_gpus demo_smi = Inr ?gs"
    by (simp add: demo_smi_def detect_gpus_def detect_gpus_try_def gpu_entry_def
        str_strip_def isspace_def)
  from detect_gpus_total [of demo_smi] obtain gpus where
    g: "detect_gpus demo_smi = Inr gpus" and k: "\<forall>g \<in> set gpus. keys g = [''model'', ''vram'']"
    by blast
  from g ev have "gpus = ?gs"
    by simp
  with k have k2: "\<forall>g \<in> set ?gs. keys g = [''model'', ''vram'']"
    by simp
  from detect_gpus_total [of "Inl FileNotFoundError"] have "detect_gpus (Inl FileNotFoundError) = Inr []"
    by auto
  with ev k2 show ?thesis
    by simp
qed

end
